theory Spec2Isabelle
  imports Main
begin

section \<open>The live connection manager (class WebSocketManager) and its host\<close>

text \<open>
  The manager of \<^verbatim>\<open>websocket.js\<close> is a class with mutable fields whose methods run as
  callbacks of the browser: transport events (\<^verbatim>\<open>onopen\<close>, \<^verbatim>\<open>onmessage\<close>,
  \<^verbatim>\<open>onclose\<close>, \<^verbatim>\<open>onerror\<close>) and timers (\<^verbatim>\<open>setTimeout\<close>, \<^verbatim>\<open>setInterval\<close>).
  The embedding passes the state explicitly. One record holds the fields of the class
  together with the part of the browser the methods read and write: the transports created
  by \<^verbatim>\<open>new WebSocket\<close> (a store indexed by creation order, since \<^verbatim>\<open>this.ws\<close> is a
  reference and replaced transports keep their handlers), the table of pending timers, and
  the record of listener invocations. Console output is not modelled.
\<close>

subsection \<open>Values on the wire\<close>

datatype json =
    JNull
  | JBool bool
  | JNumber int
  | JString string
  | JArray "json list"
  | JObject "(string \<times> json) list"

datatype exn = SyntaxError | TypeError

text \<open>Property access \<^verbatim>\<open>data.key\<close>: a \<^verbatim>\<open>TypeError\<close> on \<^verbatim>\<open>null\<close>, \<^verbatim>\<open>undefined\<close>
  (here \<open>None\<close>) on a value without that property.\<close>

fun getProp :: "json \<Rightarrow> string \<Rightarrow> exn + json option" where
  "getProp JNull k = Inl TypeError"
| "getProp (JObject kvs) k = Inr (map_of kvs k)"
| "getProp (JBool b) k = Inr None"
| "getProp (JNumber n) k = Inr None"
| "getProp (JString t) k = Inr None"
| "getProp (JArray xs) k = Inr None"

subsection \<open>The host: configuration and built-ins\<close>

text \<open>
  What the code takes from its environment: the two configuration sources read by
  \<^verbatim>\<open>getEnvVar\<close>, \<^verbatim>\<open>window.location\<close>, the built-ins \<^verbatim>\<open>JSON.parse\<close> and
  \<^verbatim>\<open>JSON.stringify\<close> (\<open>None\<close> when they throw), and whether the \<^verbatim>\<open>WebSocket\<close>
  constructor throws on a URL.
\<close>

record host =
  viteEnv :: "string \<rightharpoonup> string"
  windowEnv :: "string \<rightharpoonup> string"
  locationProtocol :: string
  locationHostname :: string
  locationPort :: string
  JSON_parse :: "string \<Rightarrow> json option"
  JSON_stringify :: "json \<Rightarrow> string option"
  WebSocket_throws :: "string \<Rightarrow> bool"

definition truthy :: "string option \<Rightarrow> bool" where
  "truthy v = (case v of None \<Rightarrow> False | Some t \<Rightarrow> t \<noteq> [])"

definition getEnvVar :: "host \<Rightarrow> string \<Rightarrow> string \<Rightarrow> string" where
  "getEnvVar env key defaultValue =
     (if truthy (viteEnv env key) then the (viteEnv env key)
      else if truthy (windowEnv env key) then the (windowEnv env key)
      else defaultValue)"

definition buildWsUrl :: "host \<Rightarrow> string \<Rightarrow> string" where
  "buildWsUrl env path =
     (let cleanPath = (case path of c # rest \<Rightarrow> if c = CHR ''/'' then rest else path | [] \<Rightarrow> path);
          configured = getEnvVar env ''VITE_WS_URL'' [];
          baseWsUrl =
            (if configured = [] then
               (let isHttps = (locationProtocol env = ''https:'');
                    proto = (if isHttps then ''wss:'' else ''ws:'')
                in proto @ ''//'' @ locationHostname env
                     @ (if locationPort env \<noteq> [] then '':'' @ locationPort env else [])
                     @ ''/ws'')
             else configured);
          cleanBaseUrl =
            (if baseWsUrl \<noteq> [] \<and> last baseWsUrl = CHR ''/'' then butlast baseWsUrl else baseWsUrl);
          cleanPathWithSlash = ''/'' @ cleanPath
      in cleanBaseUrl @ cleanPathWithSlash)"

subsection \<open>Transports and timers\<close>

text \<open>The \<^verbatim>\<open>readyState\<close> constants of the WebSocket interface.\<close>

definition CONNECTING :: nat where "CONNECTING = 0"
definition OPEN :: nat where "OPEN = 1"
definition CLOSING :: nat where "CLOSING = 2"
definition CLOSED :: nat where "CLOSED = 3"

record socket =
  url :: string
  readyState :: nat
  sent :: "string list"
  closeCalls :: "(nat \<times> string) list"
  closeFired :: bool

text \<open>The three timer callbacks the class installs, and a pending timer: its handle, its
  callback and the delay it was armed with (milliseconds).\<close>

datatype timerKind = HeartbeatPing | HeartbeatDeadline | ReconnectTimer

record timer =
  tHandle :: nat
  tKind :: timerKind
  tDelay :: nat

subsection \<open>The manager's fields and the browser state around them\<close>

record world =
  ws :: "nat option"
  reconnectAttempts :: nat
  isConnecting :: bool
  connectionListeners :: "nat list"
  messageListeners :: "nat list"
  heartbeatInterval :: "nat option"
  heartbeatTimeout :: "nat option"
  reconnectTimeout :: "nat option"
  sockets :: "socket list"
  timers :: "timer list"
  nextHandle :: nat
  connectionCalls :: "(nat \<times> string) list"
  messageCalls :: "(nat \<times> json) list"

text \<open>Fields set once in the constructor and never assigned again.\<close>

definition reconnectInterval :: nat where "reconnectInterval = 5000"
definition maxReconnectAttempts :: nat where "maxReconnectAttempts = 10"

text \<open>The constructor. Timer handles of a browser are positive, so that the truth test
  \<^verbatim>\<open>if (this.heartbeatInterval)\<close> is the test for a handle being held.\<close>

definition newManager :: world where
  "newManager =
     \<lparr> ws = None, reconnectAttempts = 0, isConnecting = False,
       connectionListeners = [], messageListeners = [],
       heartbeatInterval = None, heartbeatTimeout = None, reconnectTimeout = None,
       sockets = [], timers = [], nextHandle = 1,
       connectionCalls = [], messageCalls = [] \<rparr>"

text \<open>The fields of the class alone.\<close>

definition managerFields ::
  "world \<Rightarrow> nat option \<times> nat \<times> bool \<times> nat list \<times> nat list \<times> nat option \<times> nat option \<times> nat option" where
  "managerFields s =
     (ws s, reconnectAttempts s, isConnecting s, connectionListeners s, messageListeners s,
      heartbeatInterval s, heartbeatTimeout s, reconnectTimeout s)"

subsection \<open>Browser primitives\<close>

definition setTimer :: "timerKind \<Rightarrow> nat \<Rightarrow> world \<Rightarrow> world" where
  \<comment> \<open>\<^verbatim>\<open>setTimeout\<close> / \<^verbatim>\<open>setInterval\<close>; the handle returned is \<open>nextHandle\<close> of the state before\<close>
  "setTimer k d s =
     s\<lparr>timers := timers s @ [\<lparr>tHandle = nextHandle s, tKind = k, tDelay = d\<rparr>],
       nextHandle := Suc (nextHandle s)\<rparr>"

definition clearTimer :: "nat \<Rightarrow> world \<Rightarrow> world" where
  \<comment> \<open>\<^verbatim>\<open>clearTimeout\<close> / \<^verbatim>\<open>clearInterval\<close>; no effect on a handle that is not pending\<close>
  "clearTimer h s = s\<lparr>timers := filter (\<lambda>t. tHandle t \<noteq> h) (timers s)\<rparr>"

definition currentSocket :: "world \<Rightarrow> socket option" where
  "currentSocket s =
     (case ws s of None \<Rightarrow> None
      | Some i \<Rightarrow> if i < length (sockets s) then Some (sockets s ! i) else None)"

definition updSocket :: "nat \<Rightarrow> (socket \<Rightarrow> socket) \<Rightarrow> world \<Rightarrow> world" where
  "updSocket i f s =
     (if i < length (sockets s) then s\<lparr>sockets := (sockets s)[i := f (sockets s ! i)]\<rparr> else s)"

definition wsSend :: "nat \<Rightarrow> string \<Rightarrow> world \<Rightarrow> world" where
  "wsSend i frame s = updSocket i (\<lambda>k. k\<lparr>sent := sent k @ [frame]\<rparr>) s"

definition wsClose :: "nat \<Rightarrow> nat \<Rightarrow> string \<Rightarrow> world \<Rightarrow> world" where
  \<comment> \<open>\<^verbatim>\<open>close(code, reason)\<close>: starts the closing handshake unless already closing or closed\<close>
  "wsClose i code reason s =
     updSocket i (\<lambda>k. k\<lparr>closeCalls := closeCalls k @ [(code, reason)],
                        readyState := (if readyState k = CONNECTING \<or> readyState k = OPEN
                                       then CLOSING else readyState k)\<rparr>) s"

subsection \<open>Methods of the class\<close>

definition isConnected :: "world \<Rightarrow> bool" where
  \<comment> \<open>\<^verbatim>\<open>this.ws && this.ws.readyState === WebSocket.OPEN\<close>, read as a truth value\<close>
  "isConnected s = (case currentSocket s of None \<Rightarrow> False | Some k \<Rightarrow> readyState k = OPEN)"

definition getState :: "world \<Rightarrow> string" where
  "getState s =
     (case currentSocket s of
        None \<Rightarrow> ''disconnected''
      | Some k \<Rightarrow>
          if readyState k = CONNECTING then ''connecting''
          else if readyState k = OPEN then ''connected''
          else if readyState k = CLOSING then ''closing''
          else if readyState k = CLOSED then ''disconnected''
          else ''unknown'')"

definition addListener :: "nat \<Rightarrow> nat list \<Rightarrow> nat list" where
  \<comment> \<open>\<^verbatim>\<open>Set.prototype.add\<close>: insertion order, no duplicates\<close>
  "addListener cb xs = (if cb \<in> set xs then xs else xs @ [cb])"

definition deleteListener :: "nat \<Rightarrow> nat list \<Rightarrow> nat list" where
  "deleteListener cb xs = filter (\<lambda>x. x \<noteq> cb) xs"

definition addConnectionListener :: "nat \<Rightarrow> world \<Rightarrow> world" where
  "addConnectionListener cb s = s\<lparr>connectionListeners := addListener cb (connectionListeners s)\<rparr>"

definition removeConnectionListener :: "nat \<Rightarrow> world \<Rightarrow> world" where
  "removeConnectionListener cb s =
     s\<lparr>connectionListeners := deleteListener cb (connectionListeners s)\<rparr>"

definition addMessageListener :: "nat \<Rightarrow> world \<Rightarrow> world" where
  "addMessageListener cb s = s\<lparr>messageListeners := addListener cb (messageListeners s)\<rparr>"

definition removeMessageListener :: "nat \<Rightarrow> world \<Rightarrow> world" where
  "removeMessageListener cb s = s\<lparr>messageListeners := deleteListener cb (messageListeners s)\<rparr>"

text \<open>Each callback is invoked inside its own \<^verbatim>\<open>try\<close>/\<^verbatim>\<open>catch\<close>, so the loop visits every
  member whatever a callback does; the invocation is recorded. Callbacks are taken not to
  call back into the manager.\<close>

definition notifyConnectionListeners :: "string \<Rightarrow> world \<Rightarrow> world" where
  "notifyConnectionListeners state s =
     s\<lparr>connectionCalls := connectionCalls s @ map (\<lambda>cb. (cb, state)) (connectionListeners s)\<rparr>"

definition notifyMessageListeners :: "json \<Rightarrow> world \<Rightarrow> world" where
  "notifyMessageListeners d s =
     s\<lparr>messageCalls := messageCalls s @ map (\<lambda>cb. (cb, d)) (messageListeners s)\<rparr>"

definition send :: "host \<Rightarrow> json \<Rightarrow> world \<Rightarrow> bool \<times> world" where
  "send env d s =
     (if isConnected s then
        (case JSON_stringify env d of
           Some frame \<Rightarrow> (True, wsSend (the (ws s)) frame s)
         | None \<Rightarrow> (False, s))
      else (False, s))"

definition stopHeartbeat :: "world \<Rightarrow> world" where
  "stopHeartbeat s =
     (let s1 = (case heartbeatInterval s of
                  Some h \<Rightarrow> (clearTimer h s)\<lparr>heartbeatInterval := None\<rparr>
                | None \<Rightarrow> s)
      in (case heartbeatTimeout s1 of
            Some h \<Rightarrow> (clearTimer h s1)\<lparr>heartbeatTimeout := None\<rparr>
          | None \<Rightarrow> s1))"

definition resetHeartbeatTimeout :: "world \<Rightarrow> world" where
  "resetHeartbeatTimeout s =
     (let s1 = (case heartbeatTimeout s of Some h \<Rightarrow> clearTimer h s | None \<Rightarrow> s)
      in (setTimer HeartbeatDeadline 35000 s1)\<lparr>heartbeatTimeout := Some (nextHandle s1)\<rparr>)"

definition startHeartbeat :: "world \<Rightarrow> world" where
  "startHeartbeat s =
     (let s1 = stopHeartbeat s;
          s2 = (setTimer HeartbeatPing 30000 s1)\<lparr>heartbeatInterval := Some (nextHandle s1)\<rparr>
      in resetHeartbeatTimeout s2)"

definition reconnectDelay :: "nat \<Rightarrow> nat" where
  \<comment> \<open>\<^verbatim>\<open>Math.min(1000 * Math.pow(2, this.reconnectAttempts), 30000)\<close>\<close>
  "reconnectDelay n = min (1000 * 2 ^ n) 30000"

definition scheduleReconnect :: "world \<Rightarrow> world" where
  "scheduleReconnect s =
     (if reconnectAttempts s \<ge> maxReconnectAttempts then s
      else (setTimer ReconnectTimer (reconnectDelay (reconnectAttempts s)) s)
             \<lparr>reconnectTimeout := Some (nextHandle s)\<rparr>)"

definition disconnect :: "world \<Rightarrow> world" where
  "disconnect s =
     (let s1 = (case reconnectTimeout s of
                  Some h \<Rightarrow> (clearTimer h s)\<lparr>reconnectTimeout := None\<rparr>
                | None \<Rightarrow> s);
          s2 = stopHeartbeat s1
      in (case ws s2 of
            Some i \<Rightarrow> (wsClose i 1000 ''Client disconnect'' s2)\<lparr>ws := None\<rparr>
          | None \<Rightarrow> s2))"

text \<open>\<^verbatim>\<open>connect(path = '/ws')\<close>: the argument is optional. The promise it returns is
  already resolved on the early return, already rejected when the constructor throws, and
  otherwise pending until the transport's \<^verbatim>\<open>onopen\<close> or \<^verbatim>\<open>onerror\<close>.\<close>

datatype promise = Resolved | Rejected | Pending

definition connect :: "host \<Rightarrow> string option \<Rightarrow> world \<Rightarrow> promise \<times> world" where
  "connect env arg s =
     (let path = (case arg of None \<Rightarrow> ''/ws'' | Some p \<Rightarrow> p)
      in if isConnecting s \<or> isConnected s then (Resolved, s)
         else
           (let s1 = s\<lparr>isConnecting := True\<rparr>;
                wsUrl = buildWsUrl env path
            in if WebSocket_throws env wsUrl then (Rejected, s1\<lparr>isConnecting := False\<rparr>)
               else (Pending,
                     s1\<lparr>ws := Some (length (sockets s1)),
                        sockets := sockets s1 @
                          [\<lparr>url = wsUrl, readyState = CONNECTING, sent = [],
                            closeCalls = [], closeFired = False\<rparr>]\<rparr>)))"

subsection \<open>Transport handlers installed by connect\<close>

definition onopen :: "world \<Rightarrow> world" where
  "onopen s =
     notifyConnectionListeners ''connected''
       (startHeartbeat (s\<lparr>isConnecting := False, reconnectAttempts := 0\<rparr>))"

text \<open>\<^verbatim>\<open>handleMessage\<close>: the body of the \<^verbatim>\<open>try\<close> with the exception it ends in, if any,
  and the method itself, whose \<^verbatim>\<open>catch\<close> swallows it.\<close>

definition handleMessage_try :: "host \<Rightarrow> string \<Rightarrow> world \<Rightarrow> exn option \<times> world" where
  "handleMessage_try env text s =
     (case JSON_parse env text of
        None \<Rightarrow> (Some SyntaxError, s)
      | Some d \<Rightarrow>
          (let s1 = notifyMessageListeners d s
           in (case getProp d ''type'' of
                 Inl e \<Rightarrow> (Some e, s1)
               | Inr t \<Rightarrow>
                   (None, if t = Some (JString ''pong'') then resetHeartbeatTimeout s1 else s1))))"

definition handleMessage :: "host \<Rightarrow> string \<Rightarrow> world \<Rightarrow> world" where
  "handleMessage env text s = snd (handleMessage_try env text s)"

definition onclose :: "nat \<Rightarrow> world \<Rightarrow> world" where
  "onclose code s =
     (let s1 = notifyConnectionListeners ''disconnected''
                 (stopHeartbeat (s\<lparr>isConnecting := False\<rparr>))
      in if code \<noteq> 1000 \<and> reconnectAttempts s1 < maxReconnectAttempts
         then scheduleReconnect s1 else s1)"

definition onerror :: "world \<Rightarrow> world" where
  "onerror s = notifyConnectionListeners ''error'' (s\<lparr>isConnecting := False\<rparr>)"

subsection \<open>Timer callbacks\<close>

definition pingMessage :: json where
  "pingMessage = JObject [(''type'', JString ''ping'')]"

definition heartbeatTick :: "host \<Rightarrow> world \<Rightarrow> world" where
  \<comment> \<open>the callback of \<^verbatim>\<open>setInterval\<close> in \<^verbatim>\<open>startHeartbeat\<close>\<close>
  "heartbeatTick env s = snd (send env pingMessage s)"

definition heartbeatExpired :: "world \<Rightarrow> world" where
  \<comment> \<open>the callback of \<^verbatim>\<open>setTimeout\<close> in \<^verbatim>\<open>resetHeartbeatTimeout\<close>\<close>
  "heartbeatExpired s = scheduleReconnect (disconnect s)"

definition reconnectFired :: "host \<Rightarrow> world \<Rightarrow> world" where
  \<comment> \<open>the callback of \<^verbatim>\<open>setTimeout\<close> in \<^verbatim>\<open>scheduleReconnect\<close>\<close>
  "reconnectFired env s =
     snd (connect env None (s\<lparr>reconnectAttempts := reconnectAttempts s + 1\<rparr>))"

subsection \<open>Events: calls of the application and callbacks of the browser\<close>

datatype event =
    Connect "string option"
  | Disconnect
  | Send json
  | AddConnectionListener nat
  | RemoveConnectionListener nat
  | AddMessageListener nat
  | RemoveMessageListener nat
  | SockOpen nat
  | SockMessage nat string
  | SockClosing nat
  | SockError nat
  | SockClose nat nat
  | Fire nat

definition fireTimer :: "host \<Rightarrow> nat \<Rightarrow> world \<Rightarrow> world" where
  \<comment> \<open>a pending timer runs its callback; a timeout is pending no longer, an interval stays\<close>
  "fireTimer env h s =
     (case find (\<lambda>t. tHandle t = h) (timers s) of
        None \<Rightarrow> s
      | Some t \<Rightarrow>
          (case tKind t of
             HeartbeatPing \<Rightarrow> heartbeatTick env s
           | HeartbeatDeadline \<Rightarrow> heartbeatExpired (clearTimer h s)
           | ReconnectTimer \<Rightarrow> reconnectFired env (clearTimer h s)))"

definition socketState :: "world \<Rightarrow> nat \<Rightarrow> nat option" where
  "socketState s i = (if i < length (sockets s) then Some (readyState (sockets s ! i)) else None)"

definition closePending :: "world \<Rightarrow> nat \<Rightarrow> bool" where
  "closePending s i = (i < length (sockets s) \<and> \<not> closeFired (sockets s ! i))"

text \<open>
  One step. The browser changes a transport's \<^verbatim>\<open>readyState\<close> before it runs the handler:
  \<^verbatim>\<open>open\<close> comes to a connecting transport, \<^verbatim>\<open>message\<close> to an open one, a handshake begun
  by the server turns an open transport to closing, \<^verbatim>\<open>error\<close> comes with the transport
  already closed and before its \<^verbatim>\<open>close\<close> event, and \<^verbatim>\<open>close\<close> comes once. An event that
  cannot occur in the state leaves it unchanged.
\<close>

fun step :: "host \<Rightarrow> event \<Rightarrow> world \<Rightarrow> world" where
  "step env (Connect arg) s = snd (connect env arg s)"
| "step env Disconnect s = disconnect s"
| "step env (Send d) s = snd (send env d s)"
| "step env (AddConnectionListener cb) s = addConnectionListener cb s"
| "step env (RemoveConnectionListener cb) s = removeConnectionListener cb s"
| "step env (AddMessageListener cb) s = addMessageListener cb s"
| "step env (RemoveMessageListener cb) s = removeMessageListener cb s"
| "step env (SockOpen i) s =
     (if socketState s i = Some CONNECTING
      then onopen (updSocket i (\<lambda>k. k\<lparr>readyState := OPEN\<rparr>) s) else s)"
| "step env (SockMessage i text) s =
     (if socketState s i = Some OPEN then handleMessage env text s else s)"
| "step env (SockClosing i) s =
     (if socketState s i = Some OPEN
      then updSocket i (\<lambda>k. k\<lparr>readyState := CLOSING\<rparr>) s else s)"
| "step env (SockError i) s =
     (if closePending s i
      then onerror (updSocket i (\<lambda>k. k\<lparr>readyState := CLOSED\<rparr>) s) else s)"
| "step env (SockClose i code) s =
     (if closePending s i
      then onclose code (updSocket i (\<lambda>k. k\<lparr>readyState := CLOSED, closeFired := True\<rparr>) s)
      else s)"
| "step env (Fire h) s = fireTimer env h s"

fun run :: "host \<Rightarrow> event list \<Rightarrow> world \<Rightarrow> world" where
  "run env [] s = s"
| "run env (e # es) s = run env es (step env e s)"

subsection \<open>Runs without an open event\<close>

fun isOpen :: "event \<Rightarrow> bool" where
  "isOpen (SockOpen i) = True"
| "isOpen e = False"

subsection \<open>Invariants of the timer table, the transports and the listener sets\<close>

text \<open>
  Handles are fresh: every pending timer and every heartbeat handle the manager holds lies
  below \<open>nextHandle\<close>. A pending heartbeat timer is exactly one whose handle the manager
  holds in the field of its kind, so clearing the held handles clears every heartbeat timer
  and nothing else.
\<close>

fun below :: "nat option \<Rightarrow> nat \<Rightarrow> bool" where
  "below None n = True"
| "below (Some h) n = (h < n)"

definition timerOk :: "world \<Rightarrow> timer \<Rightarrow> bool" where
  "timerOk s t \<longleftrightarrow>
     tHandle t < nextHandle s
     \<and> (tKind t = HeartbeatPing \<longleftrightarrow> heartbeatInterval s = Some (tHandle t))
     \<and> (tKind t = HeartbeatDeadline \<longleftrightarrow> heartbeatTimeout s = Some (tHandle t))"

definition timersOk :: "world \<Rightarrow> bool" where
  "timersOk s \<longleftrightarrow>
     (\<forall>t \<in> set (timers s). timerOk s t)
     \<and> below (heartbeatInterval s) (nextHandle s)
     \<and> below (heartbeatTimeout s) (nextHandle s)"

text \<open>
  A transport's \<^verbatim>\<open>readyState\<close> is one of the four constants, and the transport the manager
  refers to exists.
\<close>

definition socketsOk :: "world \<Rightarrow> bool" where
  "socketsOk s \<longleftrightarrow>
     (\<forall>k \<in> set (sockets s). readyState k \<le> CLOSED) \<and> below (ws s) (length (sockets s))"

text \<open>The listener sets are sets: no callback is a member twice.\<close>

definition listenersOk :: "world \<Rightarrow> bool" where
  "listenersOk s \<longleftrightarrow> distinct (connectionListeners s) \<and> distinct (messageListeners s)"

subsection \<open>A concrete host and concrete runs\<close>

definition demoHost :: host where
  "demoHost =
     \<lparr> viteEnv = Map.empty, windowEnv = Map.empty,
       locationProtocol = ''https:'', locationHostname = ''example.org'', locationPort = [],
       JSON_parse =
         (\<lambda>t. if t = ''{\"type\":\"pong\"}'' then Some (JObject [(''type'', JString ''pong'')])
              else if t = ''{\"type\":\"dashboard_update\"}''
                then Some (JObject [(''type'', JString ''dashboard_update'')])
              else None),
       JSON_stringify = (\<lambda>d. if d = pingMessage then Some ''{\"type\":\"ping\"}'' else None),
       WebSocket_throws = (\<lambda>u. False) \<rparr>"

text \<open>A first connection attempt to \<^verbatim>\<open>/live\<close> that fails, and the automatic reconnect
  fired once: the state is mid-connect on a second transport with the counter at 1.\<close>

definition firstRetry :: world where
  "firstRetry =
     run demoHost [Connect (Some ''/live''), SockError 0, SockClose 0 1006, Fire 1] newManager"

text \<open>A connection established on the first attempt.\<close>

definition connectedOnce :: world where
  "connectedOnce = run demoHost [Connect (Some ''/ws''), SockOpen 0] newManager"

text \<open>A first attempt to \<^verbatim>\<open>/live\<close> that fails: the transport has closed with code 1006 and the
  first reconnect is pending.\<close>

definition firstDrop :: world where
  "firstDrop = run demoHost [Connect (Some ''/live''), SockError 0, SockClose 0 1006] newManager"

text \<open>An open connection on which the server has begun the closing handshake.\<close>

definition serverClosing :: world where
  "serverClosing = run demoHost [Connect None, SockOpen 0, SockClosing 0] newManager"



text \<open>An open connection with two message listeners, one of them added twice.\<close>

definition listening :: world where
  "listening =
     run demoHost
       [AddMessageListener 5, AddMessageListener 6, AddMessageListener 5,
        Connect (Some ''/ws''), SockOpen 0] newManager"

text \<open>
  The events under which an open connection stays as it is between two liveness responses:
  the firing of the ping interval (handle \<open>hp\<close>), sends, inbound frames that are not of
  type \<^verbatim>\<open>pong\<close>, connect calls (no-ops while connected) and changes of the listener sets.
\<close>

fun quiet :: "host \<Rightarrow> nat \<Rightarrow> event \<Rightarrow> bool" where
  "quiet env hp (Fire h) = (h = hp)"
| "quiet env hp (Send d) = True"
| "quiet env hp (SockMessage j text) =
     (case JSON_parse env text of
        None \<Rightarrow> True
      | Some d \<Rightarrow> getProp d ''type'' \<noteq> Inr (Some (JString ''pong'')))"
| "quiet env hp (Connect arg) = True"
| "quiet env hp (AddConnectionListener cb) = True"
| "quiet env hp (RemoveConnectionListener cb) = True"
| "quiet env hp (AddMessageListener cb) = True"
| "quiet env hp (RemoveMessageListener cb) = True"
| "quiet env hp Disconnect = False"
| "quiet env hp (SockOpen j) = False"
| "quiet env hp (SockClosing j) = False"
| "quiet env hp (SockError j) = False"
| "quiet env hp (SockClose j code) = False"

text \<open>State \<open>s\<close> still has transport \<open>i\<close> open as the manager's transport, with the timers,
  handles and counter of state \<open>s1\<close>, and no close call made on the transport since.\<close>

definition live :: "nat \<Rightarrow> world \<Rightarrow> world \<Rightarrow> bool" where
  "live i s1 s \<longleftrightarrow>
     ws s = Some i \<and> i < length (sockets s) \<and> readyState (sockets s ! i) = OPEN
     \<and> closeCalls (sockets s ! i) = closeCalls (sockets s1 ! i)
     \<and> timers s = timers s1 \<and> nextHandle s = nextHandle s1
     \<and> heartbeatInterval s = heartbeatInterval s1 \<and> heartbeatTimeout s = heartbeatTimeout s1
     \<and> reconnectTimeout s = reconnectTimeout s1 \<and> reconnectAttempts s = reconnectAttempts s1"

text \<open>The heartbeat timeout of a first connection fires (timer 2), the reconnect (timer 3)
  succeeds, and the close event of the replaced transport, whose closing handshake was never
  answered, arrives with code 1006 after the new transport has opened; the reconnect that
  this close event schedules (timer 6) fires while the manager is connected.\<close>

definition heartbeatLost :: world where
  "heartbeatLost =
     run demoHost
       [Connect None, SockOpen 0, Fire 2, Fire 3, SockOpen 1, SockClose 0 1006, Fire 6]
       newManager"

text \<open>A connect call whose transport has not opened yet.\<close>

definition dialling :: world where
  "dialling = run demoHost [Connect (Some ''/ws'')] newManager"

text \<open>The heartbeat timeout of a first connection fires (timer 2), the reconnect timer
  (timer 3) fires and a second transport is connecting, and then the close event of the first
  transport arrives with code 1006.\<close>

definition midConnect :: world where
  "midConnect =
     run demoHost [Connect None, SockOpen 0, Fire 2, Fire 3, SockClose 0 1006] newManager"






text \<open>The manager refers to no transport, or to one that is closed and has delivered its
  close event.\<close>

definition settled :: "world \<Rightarrow> bool" where
  "settled s \<longleftrightarrow>
     (case ws s of
        None \<Rightarrow> True
      | Some i \<Rightarrow> i < length (sockets s) \<and> readyState (sockets s ! i) = CLOSED
                  \<and> closeFired (sockets s ! i))"

section \<open>Properties\<close>

lemmas model_defs =
  truthy_def getEnvVar_def buildWsUrl_def CONNECTING_def OPEN_def CLOSING_def CLOSED_def
  maxReconnectAttempts_def newManager_def managerFields_def setTimer_def clearTimer_def
  currentSocket_def updSocket_def wsSend_def wsClose_def isConnected_def getState_def
  addListener_def deleteListener_def addConnectionListener_def removeConnectionListener_def
  addMessageListener_def removeMessageListener_def notifyConnectionListeners_def
  notifyMessageListeners_def send_def stopHeartbeat_def resetHeartbeatTimeout_def
  startHeartbeat_def reconnectDelay_def scheduleReconnect_def disconnect_def connect_def
  onopen_def handleMessage_try_def handleMessage_def onclose_def onerror_def pingMessage_def
  heartbeatTick_def heartbeatExpired_def reconnectFired_def fireTimer_def socketState_def
  closePending_def Let_def

lemma firstRetry_eval:
  "firstRetry =
     \<lparr> ws = Some 1, reconnectAttempts = 1, isConnecting = True,
       connectionListeners = [], messageListeners = [],
       heartbeatInterval = None, heartbeatTimeout = None, reconnectTimeout = Some 1,
       sockets =
         [\<lparr>url = ''wss://example.org/ws/live'', readyState = 3, sent = [], closeCalls = [],
           closeFired = True\<rparr>,
          \<lparr>url = ''wss://example.org/ws/ws'', readyState = 0, sent = [], closeCalls = [],
           closeFired = False\<rparr>],
       timers = [], nextHandle = 2, connectionCalls = [], messageCalls = [] \<rparr>"
  by (simp add: firstRetry_def demoHost_def model_defs)

subsection \<open>The failure counter under each method\<close>

lemma attempts_clearTimer [simp]: "reconnectAttempts (clearTimer h s) = reconnectAttempts s"
  by (simp add: clearTimer_def)

lemma attempts_setTimer [simp]: "reconnectAttempts (setTimer k d s) = reconnectAttempts s"
  by (simp add: setTimer_def)

lemma attempts_updSocket [simp]: "reconnectAttempts (updSocket i f s) = reconnectAttempts s"
  by (simp add: updSocket_def)

lemma attempts_stopHeartbeat [simp]: "reconnectAttempts (stopHeartbeat s) = reconnectAttempts s"
  by (simp add: stopHeartbeat_def Let_def split: option.splits)

lemma attempts_resetHeartbeatTimeout [simp]:
  "reconnectAttempts (resetHeartbeatTimeout s) = reconnectAttempts s"
  by (simp add: resetHeartbeatTimeout_def Let_def split: option.splits)

lemma attempts_scheduleReconnect [simp]:
  "reconnectAttempts (scheduleReconnect s) = reconnectAttempts s"
  by (simp add: scheduleReconnect_def)

lemma attempts_disconnect [simp]: "reconnectAttempts (disconnect s) = reconnectAttempts s"
  by (simp add: disconnect_def wsClose_def Let_def split: option.splits)

lemma attempts_notifyConnection [simp]:
  "reconnectAttempts (notifyConnectionListeners l s) = reconnectAttempts s"
  by (simp add: notifyConnectionListeners_def)

lemma attempts_send [simp]: "reconnectAttempts (snd (send env d s)) = reconnectAttempts s"
  by (simp add: send_def wsSend_def split: option.splits)

lemma attempts_connect [simp]: "reconnectAttempts (snd (connect env arg s)) = reconnectAttempts s"
  by (simp add: connect_def Let_def)

lemma attempts_handleMessage [simp]:
  "reconnectAttempts (handleMessage env text s) = reconnectAttempts s"
  by (simp add: handleMessage_def handleMessage_try_def notifyMessageListeners_def Let_def
      split: option.splits sum.splits)

lemma attempts_onclose [simp]: "reconnectAttempts (onclose code s) = reconnectAttempts s"
  by (simp add: onclose_def Let_def)

lemma attempts_onerror [simp]: "reconnectAttempts (onerror s) = reconnectAttempts s"
  by (simp add: onerror_def)

lemma attempts_onopen [simp]: "reconnectAttempts (onopen s) = 0"
  by (simp add: onopen_def startHeartbeat_def Let_def)

lemma attempts_fireTimer: "reconnectAttempts s \<le> reconnectAttempts (fireTimer env h s)"
  by (simp add: fireTimer_def heartbeatTick_def heartbeatExpired_def reconnectFired_def
      split: option.splits timerKind.splits)

lemma attempts_step:
  "\<not> isOpen e \<Longrightarrow> reconnectAttempts s \<le> reconnectAttempts (step env e s)"
  by (cases e)
     (simp_all add: attempts_fireTimer addConnectionListener_def removeConnectionListener_def
        addMessageListener_def removeMessageListener_def)

lemma attempts_run:
  "\<forall>e \<in> set es. \<not> isOpen e \<Longrightarrow> reconnectAttempts s \<le> reconnectAttempts (run env es s)"
proof (induction es arbitrary: s)
  case Nil
  show ?case by simp
next
  case (Cons e es)
  have "reconnectAttempts s \<le> reconnectAttempts (step env e s)"
    using Cons.prems by (simp add: attempts_step)
  also have "\<dots> \<le> reconnectAttempts (run env es (step env e s))"
    using Cons.prems by (intro Cons.IH) simp
  finally show ?case by simp
qed


subsection \<open>The timer invariant\<close>

lemma below_Suc: "below v n \<Longrightarrow> below v (Suc n)"
  by (cases v) simp_all

lemma below_fresh: "below v n \<Longrightarrow> v \<noteq> Some n"
  by (cases v) simp_all

lemma timersOk_new: "timersOk newManager"
  by (simp add: timersOk_def newManager_def)

lemma timersOk_clearTimer: "timersOk s \<Longrightarrow> timersOk (clearTimer h s)"
  by (simp add: timersOk_def timerOk_def clearTimer_def)

text \<open>Arming a timer with the next handle, and recording the handle in the field of its kind
  (a reconnect timer's handle is not part of the invariant).\<close>

lemma timersOk_arm:
  assumes ok: "timersOk s"
    and tm: "timers s' = timers s @ [\<lparr>tHandle = nextHandle s, tKind = k, tDelay = d\<rparr>]"
    and nh: "nextHandle s' = Suc (nextHandle s)"
    and hi: "heartbeatInterval s' =
               (if k = HeartbeatPing then Some (nextHandle s) else heartbeatInterval s)"
    and ht: "heartbeatTimeout s' =
               (if k = HeartbeatDeadline then Some (nextHandle s) else heartbeatTimeout s)"
    and none: "k \<noteq> ReconnectTimer \<Longrightarrow> \<forall>t \<in> set (timers s). tKind t \<noteq> k"
  shows "timersOk s'"
proof -
  have bi: "below (heartbeatInterval s) (nextHandle s)"
    and bt: "below (heartbeatTimeout s) (nextHandle s)"
    and each: "\<And>t. t \<in> set (timers s) \<Longrightarrow> timerOk s t"
    using ok by (simp_all add: timersOk_def)
  have fi: "heartbeatInterval s \<noteq> Some (nextHandle s)"
    and ft: "heartbeatTimeout s \<noteq> Some (nextHandle s)"
    using bi bt by (simp_all add: below_fresh)
  have old: "timerOk s' t" if t: "t \<in> set (timers s)" for t
  proof -
    have o: "timerOk s t" using t by (rule each)
    then have lt: "tHandle t < nextHandle s" by (simp add: timerOk_def)
    have k: "k \<noteq> ReconnectTimer \<Longrightarrow> tKind t \<noteq> k" using none t by blast
    show ?thesis
      using o lt k by (cases k) (auto simp: timerOk_def nh hi ht)
  qed
  have new: "timerOk s' \<lparr>tHandle = nextHandle s, tKind = k, tDelay = d\<rparr>"
    using fi ft by (cases k) (simp_all add: timerOk_def nh hi ht)
  have "below (heartbeatInterval s') (nextHandle s')"
    using bi by (simp add: hi nh below_Suc)
  moreover have "below (heartbeatTimeout s') (nextHandle s')"
    using bt by (simp add: ht nh below_Suc)
  ultimately show ?thesis
    using old new by (auto simp: timersOk_def tm)
qed

text \<open>Dropping a heartbeat handle after clearing its timer.\<close>

lemma timersOk_drop_interval:
  assumes "timersOk s" and "heartbeatInterval s = Some h"
  shows "timersOk ((clearTimer h s)\<lparr>heartbeatInterval := None\<rparr>)"
  using assms by (auto simp: timersOk_def timerOk_def clearTimer_def)

lemma timersOk_drop_timeout:
  assumes "timersOk s" and "heartbeatTimeout s = Some h"
  shows "timersOk ((clearTimer h s)\<lparr>heartbeatTimeout := None\<rparr>)"
  using assms by (auto simp: timersOk_def timerOk_def clearTimer_def)

lemma no_ping_timer:
  "timersOk s \<Longrightarrow> heartbeatInterval s = None \<Longrightarrow> \<forall>t \<in> set (timers s). tKind t \<noteq> HeartbeatPing"
  by (auto simp: timersOk_def timerOk_def)

lemma no_deadline_timer:
  "timersOk s \<Longrightarrow> heartbeatTimeout s = None \<Longrightarrow>
     \<forall>t \<in> set (timers s). tKind t \<noteq> HeartbeatDeadline"
  by (auto simp: timersOk_def timerOk_def)

lemma no_deadline_after_clear:
  "timersOk s \<Longrightarrow> heartbeatTimeout s = Some h \<Longrightarrow>
     \<forall>t \<in> set (timers (clearTimer h s)). tKind t \<noteq> HeartbeatDeadline"
  by (auto simp: timersOk_def timerOk_def clearTimer_def)

lemma stopHeartbeat_handles [simp]:
  "heartbeatInterval (stopHeartbeat s) = None" "heartbeatTimeout (stopHeartbeat s) = None"
  by (simp_all add: stopHeartbeat_def clearTimer_def Let_def split: option.splits)

lemma timersOk_stopHeartbeat: "timersOk s \<Longrightarrow> timersOk (stopHeartbeat s)"
proof -
  assume ok: "timersOk s"
  define s1 where "s1 = (case heartbeatInterval s of
                  Some h \<Rightarrow> (clearTimer h s)\<lparr>heartbeatInterval := None\<rparr>
                | None \<Rightarrow> s)"
  have ok1: "timersOk s1"
    using ok by (simp add: s1_def timersOk_drop_interval split: option.splits)
  have "timersOk (case heartbeatTimeout s1 of
            Some h \<Rightarrow> (clearTimer h s1)\<lparr>heartbeatTimeout := None\<rparr>
          | None \<Rightarrow> s1)"
    using ok1 by (simp add: timersOk_drop_timeout split: option.splits)
  then show ?thesis by (simp only: stopHeartbeat_def s1_def Let_def)
qed

lemma timersOk_resetHeartbeatTimeout: "timersOk s \<Longrightarrow> timersOk (resetHeartbeatTimeout s)"
proof -
  assume ok: "timersOk s"
  define s1 where "s1 = (case heartbeatTimeout s of Some h \<Rightarrow> clearTimer h s | None \<Rightarrow> s)"
  have ok1: "timersOk s1"
    using ok by (simp add: s1_def timersOk_clearTimer split: option.splits)
  have none: "\<forall>t \<in> set (timers s1). tKind t \<noteq> HeartbeatDeadline"
    using ok by (simp add: s1_def no_deadline_timer no_deadline_after_clear split: option.splits)
  have "timersOk ((setTimer HeartbeatDeadline 35000 s1)\<lparr>heartbeatTimeout := Some (nextHandle s1)\<rparr>)"
    using ok1 by (rule timersOk_arm [where k = HeartbeatDeadline and d = 35000])
      (simp_all add: setTimer_def none)
  then show ?thesis by (simp only: resetHeartbeatTimeout_def s1_def Let_def)
qed

lemma timersOk_startHeartbeat: "timersOk s \<Longrightarrow> timersOk (startHeartbeat s)"
proof -
  assume ok: "timersOk s"
  define s1 where "s1 = stopHeartbeat s"
  have ok1: "timersOk s1" using ok by (simp add: s1_def timersOk_stopHeartbeat)
  have none: "\<forall>t \<in> set (timers s1). tKind t \<noteq> HeartbeatPing"
    using ok1 by (simp add: s1_def no_ping_timer)
  have "timersOk ((setTimer HeartbeatPing 30000 s1)\<lparr>heartbeatInterval := Some (nextHandle s1)\<rparr>)"
    using ok1 by (rule timersOk_arm [where k = HeartbeatPing and d = 30000])
      (simp_all add: setTimer_def none)
  then show ?thesis
    by (simp add: startHeartbeat_def s1_def Let_def timersOk_resetHeartbeatTimeout)
qed

lemma timersOk_scheduleReconnect: "timersOk s \<Longrightarrow> timersOk (scheduleReconnect s)"
proof -
  assume ok: "timersOk s"
  have "timersOk ((setTimer ReconnectTimer d s)\<lparr>reconnectTimeout := Some (nextHandle s)\<rparr>)" for d
    using ok by (rule timersOk_arm [where k = ReconnectTimer and d = d]) (simp_all add: setTimer_def)
  then show ?thesis using ok by (simp add: scheduleReconnect_def)
qed

lemma timersOk_upd [simp]:
  "timersOk (s\<lparr>isConnecting := b\<rparr>) = timersOk s"
  "timersOk (s\<lparr>reconnectAttempts := n\<rparr>) = timersOk s"
  "timersOk (s\<lparr>ws := w\<rparr>) = timersOk s"
  "timersOk (s\<lparr>sockets := ks\<rparr>) = timersOk s"
  "timersOk (s\<lparr>reconnectTimeout := r\<rparr>) = timersOk s"
  "timersOk (s\<lparr>connectionListeners := ls\<rparr>) = timersOk s"
  "timersOk (s\<lparr>messageListeners := ls\<rparr>) = timersOk s"
  "timersOk (s\<lparr>connectionCalls := cs\<rparr>) = timersOk s"
  "timersOk (s\<lparr>messageCalls := ms\<rparr>) = timersOk s"
  by (simp_all add: timersOk_def timerOk_def)

lemma timersOk_updSocket [simp]: "timersOk (updSocket i f s) = timersOk s"
  by (simp add: updSocket_def)

lemma timersOk_disconnect: "timersOk s \<Longrightarrow> timersOk (disconnect s)"
  by (simp add: disconnect_def wsClose_def Let_def timersOk_stopHeartbeat timersOk_clearTimer
      split: option.splits)

lemma timersOk_connect: "timersOk s \<Longrightarrow> timersOk (snd (connect env arg s))"
  by (simp add: connect_def Let_def)

lemma timersOk_send: "timersOk s \<Longrightarrow> timersOk (snd (send env d s))"
  by (simp add: send_def wsSend_def split: option.splits)

lemma timersOk_handleMessage: "timersOk s \<Longrightarrow> timersOk (handleMessage env text s)"
  by (simp add: handleMessage_def handleMessage_try_def notifyMessageListeners_def Let_def
      timersOk_resetHeartbeatTimeout split: option.splits sum.splits)

lemma timersOk_onopen: "timersOk s \<Longrightarrow> timersOk (onopen s)"
  by (simp add: onopen_def notifyConnectionListeners_def timersOk_startHeartbeat)

lemma timersOk_onclose: "timersOk s \<Longrightarrow> timersOk (onclose code s)"
  by (simp add: onclose_def notifyConnectionListeners_def Let_def timersOk_stopHeartbeat
      timersOk_scheduleReconnect)

lemma timersOk_onerror: "timersOk s \<Longrightarrow> timersOk (onerror s)"
  by (simp add: onerror_def notifyConnectionListeners_def)

lemma timersOk_fireTimer: "timersOk s \<Longrightarrow> timersOk (fireTimer env h s)"
  by (simp add: fireTimer_def heartbeatTick_def heartbeatExpired_def reconnectFired_def
      timersOk_send timersOk_scheduleReconnect timersOk_disconnect timersOk_clearTimer
      timersOk_connect split: option.splits timerKind.splits)

lemma timersOk_step: "timersOk s \<Longrightarrow> timersOk (step env e s)"
  by (cases e)
     (simp_all add: timersOk_connect timersOk_disconnect timersOk_send timersOk_onopen
        timersOk_handleMessage timersOk_onerror timersOk_onclose timersOk_fireTimer
        addConnectionListener_def removeConnectionListener_def addMessageListener_def
        removeMessageListener_def)

lemma timersOk_run: "timersOk s \<Longrightarrow> timersOk (run env es s)"
  by (induction es arbitrary: s) (simp_all add: timersOk_step)


subsection \<open>Transports stay in the four states; the manager's reference is never dangling\<close>

lemma socketsOk_upd [simp]:
  "socketsOk (s\<lparr>isConnecting := b\<rparr>) = socketsOk s"
  "socketsOk (s\<lparr>reconnectAttempts := n\<rparr>) = socketsOk s"
  "socketsOk (s\<lparr>timers := ts\<rparr>) = socketsOk s"
  "socketsOk (s\<lparr>nextHandle := h\<rparr>) = socketsOk s"
  "socketsOk (s\<lparr>heartbeatInterval := v\<rparr>) = socketsOk s"
  "socketsOk (s\<lparr>heartbeatTimeout := v\<rparr>) = socketsOk s"
  "socketsOk (s\<lparr>reconnectTimeout := v\<rparr>) = socketsOk s"
  "socketsOk (s\<lparr>connectionListeners := ls\<rparr>) = socketsOk s"
  "socketsOk (s\<lparr>messageListeners := ls\<rparr>) = socketsOk s"
  "socketsOk (s\<lparr>connectionCalls := cs\<rparr>) = socketsOk s"
  "socketsOk (s\<lparr>messageCalls := ms\<rparr>) = socketsOk s"
  by (simp_all add: socketsOk_def)

lemma socketsOk_new: "socketsOk newManager"
  by (simp add: socketsOk_def newManager_def)

lemma socketsOk_updSocket:
  assumes ok: "socketsOk s" and f: "\<And>k. readyState k \<le> CLOSED \<Longrightarrow> readyState (f k) \<le> CLOSED"
  shows "socketsOk (updSocket i f s)"
proof (cases "i < length (sockets s)")
  case False
  then show ?thesis using ok by (simp add: updSocket_def)
next
  case True
  have old: "\<forall>k \<in> set (sockets s). readyState k \<le> CLOSED"
    and ref: "below (ws s) (length (sockets s))"
    using ok by (simp_all add: socketsOk_def)
  have "readyState (f (sockets s ! i)) \<le> CLOSED"
    using True old by (intro f) simp
  then have "\<forall>k \<in> set ((sockets s)[i := f (sockets s ! i)]). readyState k \<le> CLOSED"
    using old set_update_subset_insert [of "sockets s" i "f (sockets s ! i)"] by auto
  then show ?thesis using True ref by (simp add: updSocket_def socketsOk_def)
qed

lemma socketsOk_clearTimer [simp]: "socketsOk (clearTimer h s) = socketsOk s"
  by (simp add: clearTimer_def)

lemma socketsOk_setTimer [simp]: "socketsOk (setTimer k d s) = socketsOk s"
  by (simp add: setTimer_def)

lemma socketsOk_stopHeartbeat [simp]: "socketsOk (stopHeartbeat s) = socketsOk s"
  by (simp add: stopHeartbeat_def Let_def split: option.splits)

lemma socketsOk_resetHeartbeatTimeout [simp]: "socketsOk (resetHeartbeatTimeout s) = socketsOk s"
  by (simp add: resetHeartbeatTimeout_def Let_def split: option.splits)

lemma socketsOk_startHeartbeat [simp]: "socketsOk (startHeartbeat s) = socketsOk s"
  by (simp add: startHeartbeat_def Let_def)

lemma socketsOk_scheduleReconnect [simp]: "socketsOk (scheduleReconnect s) = socketsOk s"
  by (simp add: scheduleReconnect_def)

lemma socketsOk_notify [simp]:
  "socketsOk (notifyConnectionListeners l s) = socketsOk s"
  "socketsOk (notifyMessageListeners d s) = socketsOk s"
  by (simp_all add: notifyConnectionListeners_def notifyMessageListeners_def)

lemma socketsOk_unref: "socketsOk s \<Longrightarrow> socketsOk (s\<lparr>ws := None\<rparr>)"
  by (simp add: socketsOk_def)

lemma socketsOk_wsClose: "socketsOk s \<Longrightarrow> socketsOk (wsClose i code reason s)"
  unfolding wsClose_def by (rule socketsOk_updSocket) (simp_all add: CLOSING_def CLOSED_def)

lemma socketsOk_wsSend: "socketsOk s \<Longrightarrow> socketsOk (wsSend i frame s)"
  unfolding wsSend_def by (rule socketsOk_updSocket) simp_all

lemma socketsOk_disconnect: "socketsOk s \<Longrightarrow> socketsOk (disconnect s)"
  by (simp add: disconnect_def Let_def socketsOk_unref socketsOk_wsClose split: option.splits)

lemma socketsOk_connect: "socketsOk s \<Longrightarrow> socketsOk (snd (connect env arg s))"
  by (simp add: connect_def Let_def) (simp add: socketsOk_def CONNECTING_def)

lemma socketsOk_send: "socketsOk s \<Longrightarrow> socketsOk (snd (send env d s))"
  by (simp add: send_def socketsOk_wsSend split: option.splits)

lemma socketsOk_handleMessage: "socketsOk s \<Longrightarrow> socketsOk (handleMessage env text s)"
  by (simp add: handleMessage_def handleMessage_try_def Let_def split: option.splits sum.splits)

lemma socketsOk_onopen: "socketsOk s \<Longrightarrow> socketsOk (onopen s)"
  by (simp add: onopen_def)

lemma socketsOk_onclose: "socketsOk s \<Longrightarrow> socketsOk (onclose code s)"
  by (simp add: onclose_def Let_def)

lemma socketsOk_onerror: "socketsOk s \<Longrightarrow> socketsOk (onerror s)"
  by (simp add: onerror_def)

lemma socketsOk_fireTimer: "socketsOk s \<Longrightarrow> socketsOk (fireTimer env h s)"
  by (simp add: fireTimer_def heartbeatTick_def heartbeatExpired_def reconnectFired_def
      socketsOk_send socketsOk_disconnect socketsOk_connect
      split: option.splits timerKind.splits)

lemma socketsOk_step: "socketsOk s \<Longrightarrow> socketsOk (step env e s)"
  by (cases e)
     (simp_all add: socketsOk_connect socketsOk_disconnect socketsOk_send socketsOk_onopen
        socketsOk_handleMessage socketsOk_onerror socketsOk_onclose socketsOk_fireTimer
        socketsOk_updSocket OPEN_def CLOSING_def CLOSED_def
        addConnectionListener_def removeConnectionListener_def addMessageListener_def
        removeMessageListener_def)

lemma socketsOk_run: "socketsOk s \<Longrightarrow> socketsOk (run env es s)"
  by (induction es arbitrary: s) (simp_all add: socketsOk_step)

subsection \<open>The listener sets hold no callback twice\<close>

lemma listenersOk_new: "listenersOk newManager"
  by (simp add: listenersOk_def newManager_def)

lemma listeners_clearTimer [simp]:
  "connectionListeners (clearTimer h s) = connectionListeners s"
  "messageListeners (clearTimer h s) = messageListeners s"
  by (simp_all add: clearTimer_def)

lemma listeners_setTimer [simp]:
  "connectionListeners (setTimer k d s) = connectionListeners s"
  "messageListeners (setTimer k d s) = messageListeners s"
  by (simp_all add: setTimer_def)

lemma listeners_updSocket [simp]:
  "connectionListeners (updSocket i f s) = connectionListeners s"
  "messageListeners (updSocket i f s) = messageListeners s"
  by (simp_all add: updSocket_def)

lemma listeners_notify [simp]:
  "connectionListeners (notifyConnectionListeners l s) = connectionListeners s"
  "messageListeners (notifyConnectionListeners l s) = messageListeners s"
  "connectionListeners (notifyMessageListeners d s) = connectionListeners s"
  "messageListeners (notifyMessageListeners d s) = messageListeners s"
  by (simp_all add: notifyConnectionListeners_def notifyMessageListeners_def)

lemma listeners_stopHeartbeat [simp]:
  "connectionListeners (stopHeartbeat s) = connectionListeners s"
  "messageListeners (stopHeartbeat s) = messageListeners s"
  by (simp_all add: stopHeartbeat_def Let_def split: option.splits)

lemma listeners_resetHeartbeatTimeout [simp]:
  "connectionListeners (resetHeartbeatTimeout s) = connectionListeners s"
  "messageListeners (resetHeartbeatTimeout s) = messageListeners s"
  by (simp_all add: resetHeartbeatTimeout_def Let_def split: option.splits)

lemma listeners_startHeartbeat [simp]:
  "connectionListeners (startHeartbeat s) = connectionListeners s"
  "messageListeners (startHeartbeat s) = messageListeners s"
  by (simp_all add: startHeartbeat_def Let_def)

lemma listeners_scheduleReconnect [simp]:
  "connectionListeners (scheduleReconnect s) = connectionListeners s"
  "messageListeners (scheduleReconnect s) = messageListeners s"
  by (simp_all add: scheduleReconnect_def)

lemma listeners_disconnect [simp]:
  "connectionListeners (disconnect s) = connectionListeners s"
  "messageListeners (disconnect s) = messageListeners s"
  by (simp_all add: disconnect_def wsClose_def Let_def split: option.splits)

lemma listeners_connect [simp]:
  "connectionListeners (snd (connect env arg s)) = connectionListeners s"
  "messageListeners (snd (connect env arg s)) = messageListeners s"
  by (simp_all add: connect_def Let_def)

lemma listeners_send [simp]:
  "connectionListeners (snd (send env d s)) = connectionListeners s"
  "messageListeners (snd (send env d s)) = messageListeners s"
  by (simp_all add: send_def wsSend_def split: option.splits)

lemma listeners_handleMessage [simp]:
  "connectionListeners (handleMessage env text s) = connectionListeners s"
  "messageListeners (handleMessage env text s) = messageListeners s"
  by (simp_all add: handleMessage_def handleMessage_try_def Let_def
      split: option.splits sum.splits)

lemma listeners_onopen [simp]:
  "connectionListeners (onopen s) = connectionListeners s"
  "messageListeners (onopen s) = messageListeners s"
  by (simp_all add: onopen_def)

lemma listeners_onclose [simp]:
  "connectionListeners (onclose code s) = connectionListeners s"
  "messageListeners (onclose code s) = messageListeners s"
  by (simp_all add: onclose_def Let_def)

lemma listeners_onerror [simp]:
  "connectionListeners (onerror s) = connectionListeners s"
  "messageListeners (onerror s) = messageListeners s"
  by (simp_all add: onerror_def)

lemma listeners_fireTimer [simp]:
  "connectionListeners (fireTimer env h s) = connectionListeners s"
  "messageListeners (fireTimer env h s) = messageListeners s"
  by (simp_all add: fireTimer_def heartbeatTick_def heartbeatExpired_def reconnectFired_def
      split: option.splits timerKind.splits)

lemma distinct_addListener: "distinct xs \<Longrightarrow> distinct (addListener cb xs)"
  by (simp add: addListener_def)

lemma distinct_deleteListener: "distinct xs \<Longrightarrow> distinct (deleteListener cb xs)"
  by (simp add: deleteListener_def)

lemma listenersOk_step: "listenersOk s \<Longrightarrow> listenersOk (step env e s)"
  by (cases e)
     (simp_all add: listenersOk_def addConnectionListener_def removeConnectionListener_def
        addMessageListener_def removeMessageListener_def distinct_addListener
        distinct_deleteListener)

lemma listenersOk_run: "listenersOk s \<Longrightarrow> listenersOk (run env es s)"
  by (induction es arbitrary: s) (simp_all add: listenersOk_step)

subsection \<open>The failure counter (C9)\<close>

text \<open>
  Claim C9. Over every sequence of calls and events the failure counter never decreases
  except at the open event of a connecting transport, which sets it to zero: a step that
  lowers the counter is such an open event and leaves it at zero, and a run without open
  events leaves the counter at least where it was.
\<close>

theorem C9_failure_counter:
  "(reconnectAttempts (step env e s) < reconnectAttempts s \<longrightarrow>
      (\<exists>i. e = SockOpen i \<and> socketState s i = Some CONNECTING)
      \<and> reconnectAttempts (step env e s) = 0)
   \<and> ((\<forall>e \<in> set es. \<not> isOpen e) \<longrightarrow>
        reconnectAttempts s \<le> reconnectAttempts (run env es s))"
proof (intro conjI impI)
  assume less: "reconnectAttempts (step env e s) < reconnectAttempts s"
  then have "isOpen e"
    using attempts_step [of e s env] by (cases "isOpen e") simp_all
  then obtain i where e: "e = SockOpen i" by (cases e) simp_all
  with less have "socketState s i = Some CONNECTING"
    by (cases "socketState s i = Some CONNECTING") simp_all
  with e show "\<exists>i. e = SockOpen i \<and> socketState s i = Some CONNECTING" by simp
  from e \<open>socketState s i = Some CONNECTING\<close>
  show "reconnectAttempts (step env e s) = 0" by simp
next
  assume "\<forall>e \<in> set es. \<not> isOpen e"
  then show "reconnectAttempts s \<le> reconnectAttempts (run env es s)" by (rule attempts_run)
qed

theorem C9_failure_counter_witness:
  "reconnectAttempts firstRetry = 1
   \<and> reconnectAttempts (step demoHost (SockOpen 1) firstRetry) = 0
   \<and> socketState firstRetry 1 = Some CONNECTING
   \<and> reconnectAttempts (run demoHost [SockError 1, SockClose 1 1006, Fire 2] firstRetry) = 2"
proof -
  have "reconnectAttempts (run demoHost [SockError 1, SockClose 1 1006, Fire 2] firstRetry) = 2"
    by (simp add: firstRetry_eval demoHost_def model_defs)
  moreover have "reconnectAttempts (step demoHost (SockOpen 1) firstRetry) < reconnectAttempts firstRetry"
    by (simp add: firstRetry_eval socketState_def CONNECTING_def)
  ultimately show ?thesis
    using C9_failure_counter [of demoHost "SockOpen 1" firstRetry
        "[SockError 1, SockClose 1 1006, Fire 2]"]
    by (simp add: firstRetry_eval)
qed

subsection \<open>The concrete runs, evaluated\<close>

lemma connectedOnce_eval:
  "connectedOnce =
     \<lparr> ws = Some 0, reconnectAttempts = 0, isConnecting = False,
       connectionListeners = [], messageListeners = [],
       heartbeatInterval = Some 1, heartbeatTimeout = Some 2, reconnectTimeout = None,
       sockets =
         [\<lparr>url = ''wss://example.org/ws/ws'', readyState = 1, sent = [], closeCalls = [],
           closeFired = False\<rparr>],
       timers = [\<lparr>tHandle = 1, tKind = HeartbeatPing, tDelay = 30000\<rparr>,
                 \<lparr>tHandle = 2, tKind = HeartbeatDeadline, tDelay = 35000\<rparr>],
       nextHandle = 3, connectionCalls = [], messageCalls = [] \<rparr>"
  by (simp add: connectedOnce_def demoHost_def model_defs)

lemma firstDrop_eval:
  "firstDrop =
     \<lparr> ws = Some 0, reconnectAttempts = 0, isConnecting = False,
       connectionListeners = [], messageListeners = [],
       heartbeatInterval = None, heartbeatTimeout = None, reconnectTimeout = Some 1,
       sockets =
         [\<lparr>url = ''wss://example.org/ws/live'', readyState = 3, sent = [], closeCalls = [],
           closeFired = True\<rparr>],
       timers = [\<lparr>tHandle = 1, tKind = ReconnectTimer, tDelay = 1000\<rparr>],
       nextHandle = 2, connectionCalls = [], messageCalls = [] \<rparr>"
  by (simp add: firstDrop_def demoHost_def model_defs)

subsection \<open>What the current transport depends on\<close>

lemma currentSocket_upd [simp]:
  "currentSocket (s\<lparr>isConnecting := b\<rparr>) = currentSocket s"
  "currentSocket (s\<lparr>reconnectAttempts := n\<rparr>) = currentSocket s"
  "currentSocket (s\<lparr>timers := ts\<rparr>) = currentSocket s"
  "currentSocket (s\<lparr>nextHandle := h\<rparr>) = currentSocket s"
  "currentSocket (s\<lparr>heartbeatInterval := v\<rparr>) = currentSocket s"
  "currentSocket (s\<lparr>heartbeatTimeout := v\<rparr>) = currentSocket s"
  "currentSocket (s\<lparr>reconnectTimeout := v\<rparr>) = currentSocket s"
  "currentSocket (s\<lparr>connectionListeners := ls\<rparr>) = currentSocket s"
  "currentSocket (s\<lparr>messageListeners := ls\<rparr>) = currentSocket s"
  "currentSocket (s\<lparr>connectionCalls := cs\<rparr>) = currentSocket s"
  "currentSocket (s\<lparr>messageCalls := ms\<rparr>) = currentSocket s"
  by (simp_all add: currentSocket_def split: option.splits)

lemma currentSocket_clearTimer [simp]: "currentSocket (clearTimer h s) = currentSocket s"
  by (simp add: clearTimer_def)

lemma currentSocket_setTimer [simp]: "currentSocket (setTimer k d s) = currentSocket s"
  by (simp add: setTimer_def)

lemma currentSocket_mem: "currentSocket s = Some k \<Longrightarrow> k \<in> set (sockets s)"
  by (auto simp: currentSocket_def split: option.splits if_splits)

lemma isConnected_upd [simp]:
  "isConnected (s\<lparr>isConnecting := b\<rparr>) = isConnected s"
  "isConnected (s\<lparr>reconnectAttempts := n\<rparr>) = isConnected s"
  "isConnected (s\<lparr>timers := ts\<rparr>) = isConnected s"
  "isConnected (s\<lparr>nextHandle := h\<rparr>) = isConnected s"
  "isConnected (s\<lparr>heartbeatInterval := v\<rparr>) = isConnected s"
  "isConnected (s\<lparr>heartbeatTimeout := v\<rparr>) = isConnected s"
  "isConnected (s\<lparr>reconnectTimeout := v\<rparr>) = isConnected s"
  "isConnected (s\<lparr>connectionListeners := ls\<rparr>) = isConnected s"
  "isConnected (s\<lparr>messageListeners := ls\<rparr>) = isConnected s"
  "isConnected (s\<lparr>connectionCalls := cs\<rparr>) = isConnected s"
  "isConnected (s\<lparr>messageCalls := ms\<rparr>) = isConnected s"
  by (simp_all add: isConnected_def)

lemma isConnected_clearTimer [simp]: "isConnected (clearTimer h s) = isConnected s"
  by (simp add: clearTimer_def)

lemma isConnected_setTimer [simp]: "isConnected (setTimer k d s) = isConnected s"
  by (simp add: setTimer_def)

lemma isConnected_iff:
  "isConnected s \<longleftrightarrow>
     (\<exists>i. ws s = Some i \<and> i < length (sockets s) \<and> readyState (sockets s ! i) = OPEN)"
  by (auto simp: isConnected_def currentSocket_def split: option.splits)

subsection \<open>send (C6)\<close>

text \<open>
  Claim C6. send writes the serialized payload to the manager's transport only when that
  transport is open, and returns a truth value. When the manager is not connected it returns
  false and leaves the whole state as it was: nothing is written and nothing is queued.
  When it is connected and the payload serializes, the frame is appended to what the
  current transport has sent and the result is true; when serializing throws, the result
  is false and nothing changes. In no case does a field of the manager change, or anything
  else than what the transports hold.
\<close>

theorem C6_send:
  "(\<not> isConnected s \<longrightarrow> send env d s = (False, s))
   \<and> (sockets (snd (send env d s)) \<noteq> sockets s \<longrightarrow> isConnected s \<and> fst (send env d s))
   \<and> (isConnected s \<longrightarrow> ws s = Some i \<longrightarrow> JSON_stringify env d = Some frame \<longrightarrow>
        fst (send env d s)
        \<and> sockets (snd (send env d s)) =
            (sockets s)[i := (sockets s ! i)\<lparr>sent := sent (sockets s ! i) @ [frame]\<rparr>])
   \<and> (isConnected s \<longrightarrow> JSON_stringify env d = None \<longrightarrow> send env d s = (False, s))
   \<and> managerFields (snd (send env d s)) = managerFields s
   \<and> snd (send env d s) = s\<lparr>sockets := sockets (snd (send env d s))\<rparr>"
proof (cases "isConnected s")
  case False
  then show ?thesis by (simp add: send_def)
next
  case True
  then obtain j where j: "ws s = Some j" "j < length (sockets s)"
    by (auto simp: isConnected_iff)
  show ?thesis
  proof (cases "JSON_stringify env d")
    case None
    with True show ?thesis by (simp add: send_def)
  next
    case (Some fr)
    with True j show ?thesis
      by (simp add: send_def wsSend_def updSocket_def managerFields_def)
  qed
qed

theorem C6_send_witness:
  "\<not> isConnected firstDrop
   \<and> send demoHost pingMessage firstDrop = (False, firstDrop)
   \<and> isConnected connectedOnce
   \<and> fst (send demoHost pingMessage connectedOnce)
   \<and> map sent (sockets (snd (send demoHost pingMessage connectedOnce))) = [[''{\"type\":\"ping\"}'']]
   \<and> send demoHost JNull connectedOnce = (False, connectedOnce)"
proof -
  have a: "\<not> isConnected firstDrop"
    by (simp add: firstDrop_eval isConnected_def currentSocket_def OPEN_def)
  have b: "isConnected connectedOnce"
    by (simp add: connectedOnce_eval isConnected_def currentSocket_def OPEN_def)
  have c: "ws connectedOnce = Some 0"
    by (simp add: connectedOnce_eval)
  have d: "JSON_stringify demoHost pingMessage = Some ''{\"type\":\"ping\"}''"
    by (simp add: demoHost_def pingMessage_def)
  have e: "JSON_stringify demoHost JNull = None"
    by (simp add: demoHost_def pingMessage_def)
  have k: "sockets connectedOnce =
         [\<lparr>url = ''wss://example.org/ws/ws'', readyState = 1, sent = [], closeCalls = [],
           closeFired = False\<rparr>]"
    by (simp add: connectedOnce_eval)
  have x1: "send demoHost pingMessage firstDrop = (False, firstDrop)"
    using C6_send [of firstDrop demoHost pingMessage 0 "[]", THEN conjunct1] a by simp
  have x2: "fst (send demoHost pingMessage connectedOnce)
            \<and> sockets (snd (send demoHost pingMessage connectedOnce)) =
                (sockets connectedOnce)[0 := (sockets connectedOnce ! 0)
                   \<lparr>sent := sent (sockets connectedOnce ! 0) @ [''{\"type\":\"ping\"}'']\<rparr>]"
    using C6_send [of connectedOnce demoHost pingMessage 0 "''{\"type\":\"ping\"}''",
        THEN conjunct2, THEN conjunct2, THEN conjunct1] b c d by simp
  have x3: "send demoHost JNull connectedOnce = (False, connectedOnce)"
    using C6_send [of connectedOnce demoHost JNull 0 "[]",
        THEN conjunct2, THEN conjunct2, THEN conjunct2, THEN conjunct1] b e by simp
  have x4: "map sent (sockets (snd (send demoHost pingMessage connectedOnce)))
              = [[''{\"type\":\"ping\"}'']]"
    using x2 by (simp add: k)
  show ?thesis using a b x1 x2 x3 x4 by (intro conjI) simp_all
qed

subsection \<open>The automatic reconnect targets the default path (C10)\<close>

text \<open>
  Claim C10. The callback of a reconnect timer calls connect without an argument, which is
  connect with the default path \<^verbatim>\<open>/ws\<close>: firing a pending reconnect timer is the counter's
  increment followed by that call, and the transport it creates (when the call is not a
  no-op and the constructor does not throw) has the URL built from \<^verbatim>\<open>/ws\<close>, whatever path
  an earlier explicit connect was given.
\<close>

theorem C10_reconnect_default_path:
  assumes "find (\<lambda>t. tHandle t = h) (timers s) = Some t" and "tKind t = ReconnectTimer"
  shows "step env (Fire h) s =
           snd (connect env (Some ''/ws'')
                  ((clearTimer h s)\<lparr>reconnectAttempts := reconnectAttempts s + 1\<rparr>))
         \<and> connect env None s = connect env (Some ''/ws'') s
         \<and> (\<not> isConnecting s \<and> \<not> isConnected s \<and> \<not> WebSocket_throws env (buildWsUrl env ''/ws'')
              \<longrightarrow> ws (step env (Fire h) s) = Some (length (sockets s))
                  \<and> sockets (step env (Fire h) s) =
                      sockets s @ [\<lparr>url = buildWsUrl env ''/ws'', readyState = CONNECTING,
                                    sent = [], closeCalls = [], closeFired = False\<rparr>])"
  using assms
  by (simp add: fireTimer_def reconnectFired_def connect_def Let_def) (simp add: clearTimer_def)

theorem C10_reconnect_default_path_witness:
  "url (sockets firstDrop ! 0) = ''wss://example.org/ws/live''
   \<and> find (\<lambda>t. tHandle t = 1) (timers firstDrop)
       = Some \<lparr>tHandle = 1, tKind = ReconnectTimer, tDelay = 1000\<rparr>
   \<and> buildWsUrl demoHost ''/ws'' = ''wss://example.org/ws/ws''
   \<and> ws (step demoHost (Fire 1) firstDrop) = Some 1
   \<and> map url (sockets (step demoHost (Fire 1) firstDrop))
       = [''wss://example.org/ws/live'', ''wss://example.org/ws/ws'']"
proof -
  have a: "find (\<lambda>t. tHandle t = 1) (timers firstDrop)
             = Some \<lparr>tHandle = 1, tKind = ReconnectTimer, tDelay = 1000\<rparr>"
    by (simp add: firstDrop_eval)
  have e: "tKind \<lparr>tHandle = 1, tKind = ReconnectTimer, tDelay = 1000\<rparr> = ReconnectTimer"
    by simp
  have b: "\<not> isConnecting firstDrop \<and> \<not> isConnected firstDrop
           \<and> \<not> WebSocket_throws demoHost (buildWsUrl demoHost ''/ws'')"
    by (simp add: firstDrop_eval isConnected_def currentSocket_def OPEN_def demoHost_def)
  have c: "buildWsUrl demoHost ''/ws'' = ''wss://example.org/ws/ws''"
    by (simp add: demoHost_def buildWsUrl_def getEnvVar_def truthy_def Let_def)
  have d: "sockets firstDrop =
         [\<lparr>url = ''wss://example.org/ws/live'', readyState = 3, sent = [], closeCalls = [],
           closeFired = True\<rparr>]"
    by (simp add: firstDrop_eval)
  have f: "ws (step demoHost (Fire 1) firstDrop) = Some (length (sockets firstDrop))
           \<and> sockets (step demoHost (Fire 1) firstDrop) =
               sockets firstDrop @ [\<lparr>url = buildWsUrl demoHost ''/ws'', readyState = CONNECTING,
                                     sent = [], closeCalls = [], closeFired = False\<rparr>]"
    using C10_reconnect_default_path [OF a e, of demoHost, THEN conjunct2, THEN conjunct2] b
    by blast
  have g: "ws (step demoHost (Fire 1) firstDrop) = Some 1"
    using f [THEN conjunct1] by (simp only: d) simp
  have h: "map url (sockets (step demoHost (Fire 1) firstDrop))
             = [''wss://example.org/ws/live'', ''wss://example.org/ws/ws'']"
    by (simp only: f [THEN conjunct2] c d) simp
  have i: "url (sockets firstDrop ! 0) = ''wss://example.org/ws/live''"
    by (simp add: d)
  show ?thesis using a c g h i by (intro conjI)
qed

subsection \<open>The labels of getState (C8)\<close>

lemma getState_labels:
  "socketsOk s \<Longrightarrow>
     getState s \<in> {''disconnected'', ''connecting'', ''connected'', ''closing''}"
proof (cases "currentSocket s")
  case None
  then show ?thesis by (simp add: getState_def)
next
  case (Some k)
  assume "socketsOk s"
  with Some have "readyState k \<le> 3"
    by (auto simp: socketsOk_def CLOSED_def dest: currentSocket_mem)
  then consider "readyState k = 0" | "readyState k = 1" | "readyState k = 2" | "readyState k = 3"
    by linarith
  then show ?thesis
    using Some
    by cases (simp_all add: getState_def CONNECTING_def OPEN_def CLOSING_def CLOSED_def)
qed

text \<open>
  Claim C8, as amended. In every state the manager reaches, getState returns one of
  \<^verbatim>\<open>disconnected\<close>, \<^verbatim>\<open>connecting\<close>, \<^verbatim>\<open>connected\<close> and \<^verbatim>\<open>closing\<close>, never \<^verbatim>\<open>error\<close>;
  the label is read off the \<^verbatim>\<open>readyState\<close> of the transport the manager refers to
  (\<^verbatim>\<open>disconnected\<close> when it refers to none) and does not depend on the \<^verbatim>\<open>isConnecting\<close>
  flag; and isConnected holds exactly when the label is \<^verbatim>\<open>connected\<close>.
\<close>

theorem C8_getState_labels:
  assumes "s = run env es newManager"
  shows "getState s \<in> {''disconnected'', ''connecting'', ''connected'', ''closing''}
         \<and> getState s \<noteq> ''error''
         \<and> getState s =
             (case currentSocket s of
                None \<Rightarrow> ''disconnected''
              | Some k \<Rightarrow>
                  [''connecting'', ''connected'', ''closing'', ''disconnected''] ! readyState k)
         \<and> getState (s\<lparr>isConnecting := b\<rparr>) = getState s
         \<and> (isConnected s \<longleftrightarrow> getState s = ''connected'')"
proof -
  have ok: "socketsOk s"
    using assms by (simp add: socketsOk_run socketsOk_new)
  have labels: "getState s \<in> {''disconnected'', ''connecting'', ''connected'', ''closing''}"
    using ok by (rule getState_labels)
  then have noerr: "getState s \<noteq> ''error''" by auto
  have tab: "getState s =
             (case currentSocket s of
                None \<Rightarrow> ''disconnected''
              | Some k \<Rightarrow>
                  [''connecting'', ''connected'', ''closing'', ''disconnected''] ! readyState k)"
  proof (cases "currentSocket s")
    case None
    then show ?thesis by (simp add: getState_def)
  next
    case (Some k)
    then have "k \<in> set (sockets s)" by (rule currentSocket_mem)
    then have "readyState k \<le> 3" using ok by (simp add: socketsOk_def CLOSED_def)
    then consider "readyState k = 0" | "readyState k = 1" | "readyState k = 2" | "readyState k = 3"
      by linarith
    then show ?thesis
      using Some
      by cases (simp_all add: getState_def CONNECTING_def OPEN_def CLOSING_def CLOSED_def)
  qed
  have flag: "getState (s\<lparr>isConnecting := b\<rparr>) = getState s"
    by (simp add: getState_def)
  have conn: "isConnected s \<longleftrightarrow> getState s = ''connected''"
    by (simp add: isConnected_def getState_def CONNECTING_def OPEN_def CLOSING_def CLOSED_def
        split: option.splits)
  show ?thesis using labels noerr tab flag conn by (intro conjI)
qed

theorem C8_getState_labels_witness:
  "getState connectedOnce = ''connected'' \<and> isConnected connectedOnce
   \<and> getState (connectedOnce\<lparr>isConnecting := True\<rparr>) = ''connected''
   \<and> getState newManager = ''disconnected''"
proof -
  have "getState connectedOnce = ''connected''"
    by (simp add: connectedOnce_eval getState_def currentSocket_def CONNECTING_def OPEN_def)
  moreover have "getState newManager = ''disconnected''"
    by (simp add: newManager_def getState_def currentSocket_def)
  ultimately show ?thesis
    using C8_getState_labels [of connectedOnce demoHost "[Connect (Some ''/ws''), SockOpen 0]" True]
    by (simp add: connectedOnce_def)
qed

text \<open>On an open connection whose closing handshake the server has begun, the transport is
  closing and getState returns a fifth label.\<close>

theorem C8_getState_closing_counterexample:
  "getState serverClosing = ''closing''
   \<and> getState serverClosing \<notin> {''disconnected'', ''connecting'', ''connected'', ''error''}"
  by (simp add: serverClosing_def demoHost_def model_defs)


subsection \<open>What stopHeartbeat and the close handler do to the state\<close>

lemma stopHeartbeat_eq:
  "stopHeartbeat s =
     s\<lparr>timers := filter (\<lambda>t. Some (tHandle t) \<noteq> heartbeatInterval s
                              \<and> Some (tHandle t) \<noteq> heartbeatTimeout s) (timers s),
       heartbeatInterval := None, heartbeatTimeout := None\<rparr>"
  by (cases "heartbeatInterval s"; cases "heartbeatTimeout s")
     (simp_all add: stopHeartbeat_def clearTimer_def Let_def conj_commute)

lemma timers_stopHeartbeat:
  assumes "timersOk s"
  shows "timers (stopHeartbeat s) = filter (\<lambda>t. tKind t = ReconnectTimer) (timers s)"
proof -
  have "(Some (tHandle t) \<noteq> heartbeatInterval s \<and> Some (tHandle t) \<noteq> heartbeatTimeout s)
        \<longleftrightarrow> tKind t = ReconnectTimer" if "t \<in> set (timers s)" for t
  proof -
    have "timerOk s t" using assms that by (simp add: timersOk_def)
    then show ?thesis by (cases "tKind t") (auto simp: timerOk_def)
  qed
  then show ?thesis by (simp add: stopHeartbeat_eq cong: filter_cong)
qed

lemma find_fresh:
  "\<forall>t \<in> set ts. tHandle t \<noteq> h \<Longrightarrow> find (\<lambda>t. tHandle t = h) (ts @ [t']) =
     (if tHandle t' = h then Some t' else None)"
  by (induction ts) simp_all


lemma updSocket_fields [simp]:
  "ws (updSocket i f s) = ws s"
  "isConnecting (updSocket i f s) = isConnecting s"
  "timers (updSocket i f s) = timers s"
  "nextHandle (updSocket i f s) = nextHandle s"
  "heartbeatInterval (updSocket i f s) = heartbeatInterval s"
  "heartbeatTimeout (updSocket i f s) = heartbeatTimeout s"
  "reconnectTimeout (updSocket i f s) = reconnectTimeout s"
  "connectionCalls (updSocket i f s) = connectionCalls s"
  "messageCalls (updSocket i f s) = messageCalls s"
  "length (sockets (updSocket i f s)) = length (sockets s)"
  by (simp_all add: updSocket_def)

lemma sockets_updSocket:
  "i < length (sockets s) \<Longrightarrow> sockets (updSocket i f s) = (sockets s)[i := f (sockets s ! i)]"
  by (simp add: updSocket_def)


lemma onclose_retry:
  assumes "timersOk s" and "code \<noteq> 1000" and "reconnectAttempts s < maxReconnectAttempts"
  shows "timers (onclose code s) =
           filter (\<lambda>t. tKind t = ReconnectTimer) (timers s)
           @ [\<lparr>tHandle = nextHandle s, tKind = ReconnectTimer,
                tDelay = reconnectDelay (reconnectAttempts s)\<rparr>]"
    and "nextHandle (onclose code s) = Suc (nextHandle s)"
    and "reconnectTimeout (onclose code s) = Some (nextHandle s)"
proof -
  have "timers (onclose code s) =
          timers (stopHeartbeat s)
          @ [\<lparr>tHandle = nextHandle s, tKind = ReconnectTimer,
               tDelay = reconnectDelay (reconnectAttempts s)\<rparr>]"
    using assms(2,3)
    by (simp add: onclose_def notifyConnectionListeners_def scheduleReconnect_def
        setTimer_def Let_def) (simp add: stopHeartbeat_eq)
  then show "timers (onclose code s) =
           filter (\<lambda>t. tKind t = ReconnectTimer) (timers s)
           @ [\<lparr>tHandle = nextHandle s, tKind = ReconnectTimer,
                tDelay = reconnectDelay (reconnectAttempts s)\<rparr>]"
    using assms(1) by (simp add: timers_stopHeartbeat)
  show "nextHandle (onclose code s) = Suc (nextHandle s)"
    using assms(2,3)
    by (simp add: onclose_def notifyConnectionListeners_def scheduleReconnect_def
        setTimer_def Let_def) (simp add: stopHeartbeat_eq)
  show "reconnectTimeout (onclose code s) = Some (nextHandle s)"
    using assms(2,3)
    by (simp add: onclose_def notifyConnectionListeners_def scheduleReconnect_def
        setTimer_def Let_def) (simp add: stopHeartbeat_eq)
qed


lemma reach_timersOk: "s = run env es newManager \<Longrightarrow> timersOk s"
  by (simp add: timersOk_run timersOk_new)

lemma step_SockClose:
  "closePending s i \<Longrightarrow>
     step env (SockClose i code) s =
       onclose code (updSocket i (\<lambda>k. k\<lparr>readyState := CLOSED, closeFired := True\<rparr>) s)"
  by simp

lemma timers_fresh: "timersOk s \<Longrightarrow> \<forall>t \<in> set (timers s). tHandle t \<noteq> nextHandle s"
  by (auto simp: timersOk_def timerOk_def)

subsection \<open>Backoff after an unexpected close (C1)\<close>

lemma reconnectDelay_Suc: "reconnectDelay (Suc n) = min (2 * reconnectDelay n) 30000"
  by (simp add: reconnectDelay_def min_def)

text \<open>
  Claim C1. In every state the manager reaches, the close event of a transport with a code
  other than 1000, at a counter \<open>n\<close> below the maximum of 10, arms exactly one timer, a
  reconnect timer with delay \<open>min (1000 * 2^n) 30000\<close> milliseconds: the pending timers
  afterwards are the reconnect timers pending before (the heartbeat is cleared) and the
  new one. The delay is 1000 at counter 0 and from one counter value to the next it doubles
  up to the cap of 30000. The counter is unchanged by the close event; when the new timer
  fires, the counter is incremented and then connect is called.
\<close>

theorem C1_backoff:
  assumes reach: "s = run env es newManager"
    and pend: "closePending s i"
    and code: "code \<noteq> 1000"
    and below: "reconnectAttempts s < maxReconnectAttempts"
    and s': "s' = step env (SockClose i code) s"
  shows "timers s' =
           filter (\<lambda>t. tKind t = ReconnectTimer) (timers s)
           @ [\<lparr>tHandle = nextHandle s, tKind = ReconnectTimer,
                tDelay = min (1000 * 2 ^ reconnectAttempts s) 30000\<rparr>]
         \<and> reconnectAttempts s' = reconnectAttempts s
         \<and> step env (Fire (nextHandle s)) s' =
             snd (connect env None
                    ((clearTimer (nextHandle s) s')\<lparr>reconnectAttempts := reconnectAttempts s + 1\<rparr>))
         \<and> reconnectAttempts (step env (Fire (nextHandle s)) s') = reconnectAttempts s + 1
         \<and> reconnectDelay 0 = 1000
         \<and> reconnectDelay (Suc (reconnectAttempts s))
             = min (2 * reconnectDelay (reconnectAttempts s)) 30000"
proof -
  define s0 where "s0 = updSocket i (\<lambda>k. k\<lparr>readyState := CLOSED, closeFired := True\<rparr>) s"
  have ok: "timersOk s" using reach by (rule reach_timersOk)
  then have ok0: "timersOk s0" by (simp add: s0_def)
  have s'0: "s' = onclose code s0"
    using pend by (simp add: s' s0_def)
  have below0: "reconnectAttempts s0 < maxReconnectAttempts"
    using below by (simp add: s0_def)
  have tm: "timers s' =
           filter (\<lambda>t. tKind t = ReconnectTimer) (timers s)
           @ [\<lparr>tHandle = nextHandle s, tKind = ReconnectTimer,
                tDelay = min (1000 * 2 ^ reconnectAttempts s) 30000\<rparr>]"
    using onclose_retry(1) [OF ok0 code below0]
    by (simp add: s'0) (simp add: s0_def reconnectDelay_def)
  have att: "reconnectAttempts s' = reconnectAttempts s"
    by (simp add: s'0 s0_def)
  have "\<forall>t \<in> set (filter (\<lambda>t. tKind t = ReconnectTimer) (timers s)). tHandle t \<noteq> nextHandle s"
    using timers_fresh [OF ok] by simp
  then have fnd: "find (\<lambda>t. tHandle t = nextHandle s) (timers s') =
          Some \<lparr>tHandle = nextHandle s, tKind = ReconnectTimer,
                tDelay = min (1000 * 2 ^ reconnectAttempts s) 30000\<rparr>"
    by (simp add: tm find_fresh)
  have fire: "step env (Fire (nextHandle s)) s' =
             snd (connect env None
                    ((clearTimer (nextHandle s) s')\<lparr>reconnectAttempts := reconnectAttempts s + 1\<rparr>))"
    by (simp add: fireTimer_def fnd reconnectFired_def att)
  have inc: "reconnectAttempts (step env (Fire (nextHandle s)) s') = reconnectAttempts s + 1"
    by (simp only: fire attempts_connect) simp
  have d0: "reconnectDelay 0 = 1000" by (simp add: reconnectDelay_def)
  show ?thesis
    using tm att fire inc d0 reconnectDelay_Suc [of "reconnectAttempts s"] by (intro conjI)
qed

theorem C1_backoff_witness:
  "closePending connectedOnce 0
   \<and> reconnectAttempts connectedOnce = 0
   \<and> timers (step demoHost (SockClose 0 1006) connectedOnce)
       = [\<lparr>tHandle = 3, tKind = ReconnectTimer, tDelay = 1000\<rparr>]
   \<and> reconnectAttempts
        (step demoHost (Fire 3) (step demoHost (SockClose 0 1006) connectedOnce)) = 1
   \<and> reconnectDelay 1 = 2000"
proof -
  have a: "connectedOnce = run demoHost [Connect (Some ''/ws''), SockOpen 0] newManager"
    by (simp add: connectedOnce_def)
  have b: "closePending connectedOnce 0"
    by (simp add: connectedOnce_eval closePending_def)
  have c: "(1006::nat) \<noteq> 1000" by simp
  have d: "reconnectAttempts connectedOnce < maxReconnectAttempts"
    by (simp add: connectedOnce_eval maxReconnectAttempts_def)
  note main = C1_backoff [OF a b c d refl]
  have e: "reconnectAttempts connectedOnce = 0" "nextHandle connectedOnce = 3"
    "filter (\<lambda>t. tKind t = ReconnectTimer) (timers connectedOnce) = []"
    by (simp_all add: connectedOnce_eval)
  have x1: "timers (step demoHost (SockClose 0 1006) connectedOnce)
       = [\<lparr>tHandle = 3, tKind = ReconnectTimer, tDelay = 1000\<rparr>]"
    using main [THEN conjunct1] unfolding e by simp
  have x2: "reconnectAttempts
        (step demoHost (Fire 3) (step demoHost (SockClose 0 1006) connectedOnce)) = 1"
    using main [THEN conjunct2, THEN conjunct2, THEN conjunct2, THEN conjunct1]
    unfolding e by simp
  have x3: "reconnectDelay 1 = 2000"
    using main [THEN conjunct2, THEN conjunct2, THEN conjunct2, THEN conjunct2]
    unfolding e by simp
  show ?thesis using b e(1) x1 x2 x3 by (intro conjI)
qed

lemma listening_eval:
  "listening =
     \<lparr> ws = Some 0, reconnectAttempts = 0, isConnecting = False,
       connectionListeners = [], messageListeners = [5, 6],
       heartbeatInterval = Some 1, heartbeatTimeout = Some 2, reconnectTimeout = None,
       sockets =
         [\<lparr>url = ''wss://example.org/ws/ws'', readyState = 1, sent = [], closeCalls = [],
           closeFired = False\<rparr>],
       timers = [\<lparr>tHandle = 1, tKind = HeartbeatPing, tDelay = 30000\<rparr>,
                 \<lparr>tHandle = 2, tKind = HeartbeatDeadline, tDelay = 35000\<rparr>],
       nextHandle = 3, connectionCalls = [], messageCalls = [] \<rparr>"
  by (simp add: listening_def demoHost_def model_defs)

subsection \<open>Malformed frames (C7)\<close>

lemma messageCalls_resetHeartbeatTimeout [simp]:
  "messageCalls (resetHeartbeatTimeout s) = messageCalls s"
  by (simp add: resetHeartbeatTimeout_def setTimer_def clearTimer_def Let_def split: option.splits)

lemma messageCalls_handleMessage:
  "JSON_parse env text = Some d \<Longrightarrow>
     messageCalls (handleMessage env text s) =
       messageCalls s @ map (\<lambda>cb. (cb, d)) (messageListeners s)"
  by (simp add: handleMessage_def handleMessage_try_def notifyMessageListeners_def Let_def
      split: sum.splits)

lemma count_list_once:
  "distinct xs \<Longrightarrow> x \<in> set xs \<Longrightarrow> count_list (map (\<lambda>cb. (cb, d)) xs) (x, d) = 1"
  by (induction xs) (auto simp: count_list_0_iff image_iff)

lemma reach_listenersOk: "s = run env es newManager \<Longrightarrow> listenersOk s"
  by (simp add: listenersOk_run listenersOk_new)

text \<open>
  Claim C7. A frame whose text \<^verbatim>\<open>JSON.parse\<close> rejects is dropped: the \<^verbatim>\<open>SyntaxError\<close> is
  raised before any listener is called and is caught inside handleMessage, which returns
  with the state exactly as it was, so the message event leaves the whole state unchanged.
  A well-formed frame handled next is delivered as if the malformed one had never arrived:
  the calls of message listeners it adds are one call with the parsed value for each
  registered listener, and each registered listener occurs in them exactly once.
\<close>

theorem C7_malformed_frame:
  assumes reach: "s = run env es newManager"
    and bad: "JSON_parse env bad = None"
    and good: "JSON_parse env good = Some d"
  shows "handleMessage_try env bad s = (Some SyntaxError, s)
         \<and> handleMessage env bad s = s
         \<and> step env (SockMessage i bad) s = s
         \<and> messageCalls (run env [SockMessage i bad] s) = messageCalls s
         \<and> handleMessage env good (handleMessage env bad s) = handleMessage env good s
         \<and> messageCalls (handleMessage env good (handleMessage env bad s)) =
             messageCalls s @ map (\<lambda>cb. (cb, d)) (messageListeners s)
         \<and> (\<forall>cb \<in> set (messageListeners s).
               count_list (map (\<lambda>cb. (cb, d)) (messageListeners s)) (cb, d) = 1)"
proof -
  have thrown: "handleMessage_try env bad s = (Some SyntaxError, s)"
    using bad by (simp add: handleMessage_try_def)
  then have drop: "handleMessage env bad s = s"
    by (simp add: handleMessage_def)
  then have ev: "step env (SockMessage i bad) s = s" by simp
  have calls: "messageCalls (handleMessage env good (handleMessage env bad s)) =
             messageCalls s @ map (\<lambda>cb. (cb, d)) (messageListeners s)"
    using good by (simp add: drop messageCalls_handleMessage)
  have "distinct (messageListeners s)"
    using reach_listenersOk [OF reach] by (simp add: listenersOk_def)
  then have once: "\<forall>cb \<in> set (messageListeners s).
               count_list (map (\<lambda>cb. (cb, d)) (messageListeners s)) (cb, d) = 1"
    by (simp add: count_list_once)
  show ?thesis using thrown drop ev calls once by (intro conjI) simp_all
qed

theorem C7_malformed_frame_witness:
  "JSON_parse demoHost ''not json'' = None
   \<and> step demoHost (SockMessage 0 ''not json'') listening = listening
   \<and> messageListeners listening = [5, 6]
   \<and> messageCalls
        (run demoHost [SockMessage 0 ''not json'', SockMessage 0 ''{\"type\":\"dashboard_update\"}'']
           listening)
       = [(5, JObject [(''type'', JString ''dashboard_update'')]),
          (6, JObject [(''type'', JString ''dashboard_update'')])]"
proof -
  have a: "listening = run demoHost
       [AddMessageListener 5, AddMessageListener 6, AddMessageListener 5,
        Connect (Some ''/ws''), SockOpen 0] newManager"
    by (simp add: listening_def)
  have b: "JSON_parse demoHost ''not json'' = None"
    by (simp add: demoHost_def)
  have c: "JSON_parse demoHost ''{\"type\":\"dashboard_update\"}''
             = Some (JObject [(''type'', JString ''dashboard_update'')])"
    by (simp add: demoHost_def)
  note main = C7_malformed_frame [OF a b c, of 0]
  have e: "messageListeners listening = [5, 6]" "messageCalls listening = []"
    "socketState listening 0 = Some OPEN"
    by (simp_all add: listening_eval socketState_def OPEN_def)
  have x1: "step demoHost (SockMessage 0 ''not json'') listening = listening"
    using main [THEN conjunct2, THEN conjunct2, THEN conjunct1] .
  have x2: "messageCalls (handleMessage demoHost ''{\"type\":\"dashboard_update\"}''
                            (handleMessage demoHost ''not json'' listening))
       = [(5, JObject [(''type'', JString ''dashboard_update'')]),
          (6, JObject [(''type'', JString ''dashboard_update'')])]"
    using main [THEN conjunct2, THEN conjunct2, THEN conjunct2, THEN conjunct2, THEN conjunct2,
        THEN conjunct1]
    unfolding e by simp
  have x3: "messageCalls
        (run demoHost [SockMessage 0 ''not json'', SockMessage 0 ''{\"type\":\"dashboard_update\"}'']
           listening)
       = [(5, JObject [(''type'', JString ''dashboard_update'')]),
          (6, JObject [(''type'', JString ''dashboard_update'')])]"
    using x2 main [THEN conjunct2, THEN conjunct1] e(3) by (simp add: x1)
  show ?thesis using b x1 e(1) x3 by (intro conjI)
qed

lemma heartbeatLost_eval:
  "heartbeatLost =
     \<lparr> ws = Some 1, reconnectAttempts = 1, isConnecting = False,
       connectionListeners = [], messageListeners = [],
       heartbeatInterval = None, heartbeatTimeout = None, reconnectTimeout = Some 6,
       sockets =
         [\<lparr>url = ''wss://example.org/ws/ws'', readyState = 3, sent = [],
           closeCalls = [(1000, ''Client disconnect'')], closeFired = True\<rparr>,
          \<lparr>url = ''wss://example.org/ws/ws'', readyState = 1, sent = [], closeCalls = [],
           closeFired = False\<rparr>],
       timers = [], nextHandle = 7, connectionCalls = [], messageCalls = [] \<rparr>"
  by (simp add: heartbeatLost_def demoHost_def model_defs)

lemma dialling_eval:
  "dialling =
     \<lparr> ws = Some 0, reconnectAttempts = 0, isConnecting = True,
       connectionListeners = [], messageListeners = [],
       heartbeatInterval = None, heartbeatTimeout = None, reconnectTimeout = None,
       sockets =
         [\<lparr>url = ''wss://example.org/ws/ws'', readyState = 0, sent = [], closeCalls = [],
           closeFired = False\<rparr>],
       timers = [], nextHandle = 1, connectionCalls = [], messageCalls = [] \<rparr>"
  by (simp add: dialling_def demoHost_def model_defs)

subsection \<open>The heartbeat (C3)\<close>

lemma stopHeartbeat_fields [simp]:
  "ws (stopHeartbeat s) = ws s"
  "isConnecting (stopHeartbeat s) = isConnecting s"
  "sockets (stopHeartbeat s) = sockets s"
  "nextHandle (stopHeartbeat s) = nextHandle s"
  "reconnectTimeout (stopHeartbeat s) = reconnectTimeout s"
  "connectionCalls (stopHeartbeat s) = connectionCalls s"
  "messageCalls (stopHeartbeat s) = messageCalls s"
  by (simp_all add: stopHeartbeat_eq)

text \<open>The open handler in closed form.\<close>

lemma onopen_effect:
  assumes "timersOk s"
  shows "timers (onopen s) =
           filter (\<lambda>t. tKind t = ReconnectTimer) (timers s)
           @ [\<lparr>tHandle = nextHandle s, tKind = HeartbeatPing, tDelay = 30000\<rparr>,
              \<lparr>tHandle = Suc (nextHandle s), tKind = HeartbeatDeadline, tDelay = 35000\<rparr>]"
    and "heartbeatInterval (onopen s) = Some (nextHandle s)"
    and "heartbeatTimeout (onopen s) = Some (Suc (nextHandle s))"
    and "nextHandle (onopen s) = Suc (Suc (nextHandle s))"
    and "reconnectTimeout (onopen s) = reconnectTimeout s"
    and "ws (onopen s) = ws s"
    and "sockets (onopen s) = sockets s"
proof -
  have st: "startHeartbeat s =
      (stopHeartbeat s)
        \<lparr>timers := timers (stopHeartbeat s)
           @ [\<lparr>tHandle = nextHandle s, tKind = HeartbeatPing, tDelay = 30000\<rparr>,
              \<lparr>tHandle = Suc (nextHandle s), tKind = HeartbeatDeadline, tDelay = 35000\<rparr>],
         nextHandle := Suc (Suc (nextHandle s)),
         heartbeatInterval := Some (nextHandle s),
         heartbeatTimeout := Some (Suc (nextHandle s))\<rparr>" for s
    by (simp add: startHeartbeat_def resetHeartbeatTimeout_def setTimer_def Let_def)
  have tk: "timers (stopHeartbeat (s\<lparr>isConnecting := False, reconnectAttempts := 0\<rparr>))
              = filter (\<lambda>t. tKind t = ReconnectTimer) (timers s)"
    using assms timers_stopHeartbeat [of "s\<lparr>isConnecting := False, reconnectAttempts := 0\<rparr>"]
    by simp
  show "timers (onopen s) =
           filter (\<lambda>t. tKind t = ReconnectTimer) (timers s)
           @ [\<lparr>tHandle = nextHandle s, tKind = HeartbeatPing, tDelay = 30000\<rparr>,
              \<lparr>tHandle = Suc (nextHandle s), tKind = HeartbeatDeadline, tDelay = 35000\<rparr>]"
    by (simp add: onopen_def notifyConnectionListeners_def st tk)
  show "heartbeatInterval (onopen s) = Some (nextHandle s)"
    "heartbeatTimeout (onopen s) = Some (Suc (nextHandle s))"
    "nextHandle (onopen s) = Suc (Suc (nextHandle s))"
    "reconnectTimeout (onopen s) = reconnectTimeout s"
    "ws (onopen s) = ws s"
    "sockets (onopen s) = sockets s"
    by (simp_all add: onopen_def notifyConnectionListeners_def st)
qed

text \<open>disconnect in closed form, when the manager refers to a transport.\<close>

lemma disconnect_effect:
  assumes ok: "timersOk s" and cur: "ws s = Some i"
  shows "timers (disconnect s) =
           filter (\<lambda>t. tKind t = ReconnectTimer \<and> Some (tHandle t) \<noteq> reconnectTimeout s)
             (timers s)"
    and "ws (disconnect s) = None"
    and "sockets (disconnect s) = sockets (wsClose i 1000 ''Client disconnect'' s)"
    and "nextHandle (disconnect s) = nextHandle s"
    and "reconnectTimeout (disconnect s) = None"
    and "heartbeatInterval (disconnect s) = None"
    and "heartbeatTimeout (disconnect s) = None"
proof -
  define s1 where "s1 = (case reconnectTimeout s of
                  Some h \<Rightarrow> (clearTimer h s)\<lparr>reconnectTimeout := None\<rparr>
                | None \<Rightarrow> s)"
  have ok1: "timersOk s1"
    using ok by (simp add: s1_def timersOk_clearTimer split: option.splits)
  have t1: "timers s1 = filter (\<lambda>t. Some (tHandle t) \<noteq> reconnectTimeout s) (timers s)"
    by (auto simp: s1_def clearTimer_def split: option.splits intro: filter_cong)
  have f1: "ws s1 = Some i" "sockets s1 = sockets s" "nextHandle s1 = nextHandle s"
    "reconnectTimeout s1 = None"
    using cur by (simp_all add: s1_def clearTimer_def split: option.splits)
  have d: "disconnect s = (wsClose i 1000 ''Client disconnect'' (stopHeartbeat s1))\<lparr>ws := None\<rparr>"
    using f1(1) by (simp add: disconnect_def s1_def [symmetric] Let_def)
  have "timers (disconnect s) = timers (stopHeartbeat s1)"
    by (simp add: d wsClose_def)
  also have "\<dots> = filter (\<lambda>t. tKind t = ReconnectTimer) (timers s1)"
    using ok1 by (rule timers_stopHeartbeat)
  finally show "timers (disconnect s) =
           filter (\<lambda>t. tKind t = ReconnectTimer \<and> Some (tHandle t) \<noteq> reconnectTimeout s)
             (timers s)"
    by (simp add: t1 conj_commute)
  show "ws (disconnect s) = None" by (simp add: d)
  show "sockets (disconnect s) = sockets (wsClose i 1000 ''Client disconnect'' s)"
    by (simp add: d wsClose_def updSocket_def f1)
  show "nextHandle (disconnect s) = nextHandle s" by (simp add: d wsClose_def f1)
  show "reconnectTimeout (disconnect s) = None" by (simp add: d wsClose_def f1)
  show "heartbeatInterval (disconnect s) = None" "heartbeatTimeout (disconnect s) = None"
    by (simp_all add: d wsClose_def updSocket_def)
qed

lemma find_skip: "\<forall>t \<in> set xs. \<not> P t \<Longrightarrow> find P (xs @ ys) = find P ys"
  by (induction xs) simp_all

text \<open>Quiet events keep the connection live.\<close>

lemma live_isConnected: "live i s1 s \<Longrightarrow> isConnected s"
  by (simp add: live_def isConnected_iff)

lemma live_send: "live i s1 s \<Longrightarrow> live i s1 (snd (send env d s))"
  by (auto simp: live_def send_def wsSend_def updSocket_def split: option.splits)

lemma live_notifyMessage: "live i s1 s \<Longrightarrow> live i s1 (notifyMessageListeners d s)"
  by (simp add: live_def notifyMessageListeners_def)

lemma live_handleMessage:
  assumes "live i s1 s"
    and "case JSON_parse env text of None \<Rightarrow> True
         | Some d \<Rightarrow> getProp d ''type'' \<noteq> Inr (Some (JString ''pong''))"
  shows "live i s1 (handleMessage env text s)"
  using assms
  by (auto simp: handleMessage_def handleMessage_try_def Let_def live_notifyMessage
      split: option.splits sum.splits)

lemma live_listeners:
  "live i s1 s \<Longrightarrow> live i s1 (s\<lparr>connectionListeners := ls\<rparr>)"
  "live i s1 s \<Longrightarrow> live i s1 (s\<lparr>messageListeners := ls\<rparr>)"
  by (simp_all add: live_def)

lemma live_step:
  assumes lv: "live i s1 s"
    and ping: "find (\<lambda>t. tHandle t = hp) (timers s1) = Some t" "tKind t = HeartbeatPing"
    and q: "quiet env hp e"
  shows "live i s1 (step env e s)"
proof (cases e)
  case (Connect arg)
  have "isConnected s" using lv by (rule live_isConnected)
  then show ?thesis using lv Connect by (simp add: connect_def Let_def)
next
  case (Send d)
  then show ?thesis using lv by (simp add: live_send)
next
  case (SockMessage j fr)
  then show ?thesis using lv q by (simp add: live_handleMessage)
next
  case (Fire h)
  then have "h = hp" using q by simp
  moreover have "timers s = timers s1" using lv by (simp add: live_def)
  ultimately show ?thesis
    using lv ping Fire by (simp add: fireTimer_def heartbeatTick_def live_send)
qed (use lv q in \<open>simp_all add: live_listeners addConnectionListener_def
      removeConnectionListener_def addMessageListener_def removeMessageListener_def\<close>)

lemma live_run:
  assumes "live i s1 s"
    and "find (\<lambda>t. tHandle t = hp) (timers s1) = Some t" and "tKind t = HeartbeatPing"
    and "\<forall>e \<in> set es. quiet env hp e"
  shows "live i s1 (run env es s)"
  using assms
proof (induction es arbitrary: s)
  case Nil
  then show ?case by simp
next
  case (Cons e es)
  have "live i s1 (step env e s)"
    using Cons.prems by (intro live_step [where hp = hp and t = t]) simp_all
  then show ?case using Cons.prems by (simp add: Cons.IH)
qed

text \<open>
  The heartbeat as designed. When the transport the manager refers to opens, in any state
  the manager reaches, a 30000 ms interval (the ping) and a 35000 ms timeout (the liveness
  deadline) are armed beside the reconnect timers already pending. As long as only quiet
  events follow (firings of the interval, sends, inbound frames not of type \<^verbatim>\<open>pong\<close>,
  connect calls, listener changes), the connection stays open with exactly these timers
  pending. Each firing of the interval then writes the serialized message of type
  \<^verbatim>\<open>ping\<close> to the transport. When the timeout fires, the manager calls close with code
  1000 on the transport, which turns to closing, drops its reference to it, clears the
  heartbeat and the reconnect timer it holds, and schedules one reconnect after 1000 ms.
\<close>

lemma heartbeat_quiet_run:
  assumes reach: "s0 = run env es0 newManager"
    and cur: "ws s0 = Some i"
    and connecting: "socketState s0 i = Some CONNECTING"
    and s1: "s1 = step env (SockOpen i) s0"
    and q: "\<forall>e \<in> set es. quiet env (nextHandle s0) e"
    and s2: "s2 = run env es s1"
    and s3: "s3 = step env (Fire (Suc (nextHandle s0))) s2"
  shows "timers s1 =
           filter (\<lambda>t. tKind t = ReconnectTimer) (timers s0)
           @ [\<lparr>tHandle = nextHandle s0, tKind = HeartbeatPing, tDelay = 30000\<rparr>,
              \<lparr>tHandle = Suc (nextHandle s0), tKind = HeartbeatDeadline, tDelay = 35000\<rparr>]
         \<and> isConnected s2
         \<and> timers s2 = timers s1
         \<and> (JSON_stringify env pingMessage = Some frame \<longrightarrow>
               sent (sockets (step env (Fire (nextHandle s0)) s2) ! i)
                 = sent (sockets s2 ! i) @ [frame])
         \<and> ws s3 = None
         \<and> closeCalls (sockets s3 ! i) = closeCalls (sockets s0 ! i) @ [(1000, ''Client disconnect'')]
         \<and> readyState (sockets s3 ! i) = CLOSING
         \<and> timers s3 =
             filter (\<lambda>t. tKind t = ReconnectTimer \<and> Some (tHandle t) \<noteq> reconnectTimeout s0)
               (timers s0)
             @ [\<lparr>tHandle = Suc (Suc (nextHandle s0)), tKind = ReconnectTimer, tDelay = 1000\<rparr>]"
proof -
  define hp where "hp = nextHandle s0"
  define R where "R = filter (\<lambda>t. tKind t = ReconnectTimer) (timers s0)"
  define pingT where "pingT = \<lparr>tHandle = hp, tKind = HeartbeatPing, tDelay = 30000\<rparr>"
  define deadT where "deadT = \<lparr>tHandle = Suc hp, tKind = HeartbeatDeadline, tDelay = 35000\<rparr>"
  define g where "g = updSocket i (\<lambda>k. k\<lparr>readyState := OPEN\<rparr>) s0"
  have ok0: "timersOk s0" using reach by (rule reach_timersOk)
  have i: "i < length (sockets s0)"
    using connecting by (simp add: socketState_def split: if_splits)
  have okg: "timersOk g" using ok0 by (simp add: g_def)
  have s1g: "s1 = onopen g" using connecting by (simp add: s1 g_def)
  have t1: "timers s1 = R @ [pingT, deadT]"
    using onopen_effect(1) [OF okg] by (simp add: s1g R_def pingT_def deadT_def hp_def g_def)
  have low: "\<forall>t \<in> set (timers s0). tHandle t < hp"
    using ok0 by (simp add: timersOk_def timerOk_def hp_def)
  then have fresh: "\<forall>t \<in> set R. tHandle t \<noteq> hp" "\<forall>t \<in> set R. tHandle t \<noteq> Suc hp"
    by (auto simp: R_def)
  have fp: "find (\<lambda>t. tHandle t = hp) (timers s1) = Some pingT"
    using fresh(1) by (simp add: t1 find_skip pingT_def)
  have fd: "find (\<lambda>t. tHandle t = Suc hp) (timers s1) = Some deadT"
    using fresh(2) by (simp add: t1 find_skip pingT_def deadT_def)
  have sock1: "sockets s1 = (sockets s0)[i := (sockets s0 ! i)\<lparr>readyState := OPEN\<rparr>]"
    using onopen_effect(7) [OF okg] i by (simp add: s1g g_def sockets_updSocket)
  have ws1: "ws s1 = Some i"
    using onopen_effect(6) [OF okg] cur by (simp add: s1g g_def)
  have lv1: "live i s1 s1"
    using i by (simp add: live_def ws1 sock1)
  have lv2: "live i s1 s2"
    unfolding s2 using lv1 fp _ q [folded hp_def]
    by (rule live_run) (simp add: pingT_def)
  have conn2: "isConnected s2" using lv2 by (rule live_isConnected)
  have t2: "timers s2 = timers s1" using lv2 by (simp add: live_def)
  have ws2: "ws s2 = Some i" and i2: "i < length (sockets s2)"
    and open2: "readyState (sockets s2 ! i) = OPEN"
    and cc2: "closeCalls (sockets s2 ! i) = closeCalls (sockets s1 ! i)"
    and nh2: "nextHandle s2 = nextHandle s1"
    and rt2: "reconnectTimeout s2 = reconnectTimeout s1"
    and at2: "reconnectAttempts s2 = reconnectAttempts s1"
    using lv2 by (simp_all add: live_def)
  have pingfire: "sent (sockets (step env (Fire hp) s2) ! i) = sent (sockets s2 ! i) @ [frame]"
    if "JSON_stringify env pingMessage = Some frame"
    using that conn2 ws2 i2
    by (simp add: fireTimer_def t2 fp pingT_def heartbeatTick_def send_def wsSend_def
        updSocket_def)
  have ok2: "timersOk s2"
    unfolding s2 s1 using ok0 by (intro timersOk_run timersOk_step)
  define st where "st = clearTimer (Suc hp) s2"
  have okst: "timersOk st" using ok2 by (simp add: st_def timersOk_clearTimer)
  have wsst: "ws st = Some i" by (simp add: st_def clearTimer_def ws2)
  have s3st: "s3 = scheduleReconnect (disconnect st)"
    by (simp add: s3 hp_def [symmetric] fireTimer_def t2 fd deadT_def heartbeatExpired_def st_def)
  note de = disconnect_effect [OF okst wsst]
  have at1: "reconnectAttempts s1 = 0" by (simp add: s1g)
  have atd: "reconnectAttempts st = 0"
    by (simp add: st_def at2 at1)
  have nh1: "nextHandle s1 = Suc (Suc hp)"
    using onopen_effect(4) [OF okg] by (simp add: s1g g_def hp_def)
  have rt1: "reconnectTimeout s1 = reconnectTimeout s0"
    using onopen_effect(5) [OF okg] by (simp add: s1g g_def)
  have tst: "timers st = R @ [pingT]"
    using fresh(2) by (simp add: st_def clearTimer_def t2 t1 pingT_def deadT_def)
  have rtst: "reconnectTimeout st = reconnectTimeout s0"
    by (simp add: st_def clearTimer_def rt2 rt1)
  have td: "timers (disconnect st) =
              filter (\<lambda>t. tKind t = ReconnectTimer \<and> Some (tHandle t) \<noteq> reconnectTimeout s0)
                (timers s0)"
    by (simp add: de(1) tst rtst pingT_def R_def conj_commute)
  have nhst: "nextHandle st = Suc (Suc hp)"
    by (simp add: st_def clearTimer_def nh2 nh1)
  have nhd: "nextHandle (disconnect st) = Suc (Suc hp)"
    by (simp add: de(4) nhst)
  have t3: "timers s3 =
             filter (\<lambda>t. tKind t = ReconnectTimer \<and> Some (tHandle t) \<noteq> reconnectTimeout s0)
               (timers s0)
             @ [\<lparr>tHandle = Suc (Suc hp), tKind = ReconnectTimer, tDelay = 1000\<rparr>]"
    by (simp add: s3st scheduleReconnect_def atd maxReconnectAttempts_def setTimer_def td nhd
        reconnectDelay_def)
  have ws3: "ws s3 = None"
    by (simp add: s3st scheduleReconnect_def setTimer_def de(2))
  have sock3: "sockets s3 = sockets (wsClose i 1000 ''Client disconnect'' st)"
    by (simp add: s3st scheduleReconnect_def setTimer_def de(3))
  have sockst: "sockets st = sockets s2" by (simp add: st_def clearTimer_def)
  have k3: "sockets s3 ! i =
              (sockets s2 ! i)\<lparr>closeCalls := closeCalls (sockets s2 ! i) @ [(1000, ''Client disconnect'')],
                                readyState := CLOSING\<rparr>"
    using i2 open2 by (simp add: sock3 wsClose_def updSocket_def sockst)
  have cc1: "closeCalls (sockets s1 ! i) = closeCalls (sockets s0 ! i)"
    using i by (simp add: sock1)
  have cc3: "closeCalls (sockets s3 ! i) = closeCalls (sockets s0 ! i) @ [(1000, ''Client disconnect'')]"
    by (simp add: k3 cc2 cc1)
  have rs3: "readyState (sockets s3 ! i) = CLOSING" by (simp add: k3)
  show ?thesis
    using t1 conn2 t2 pingfire ws3 cc3 rs3 t3
    unfolding hp_def R_def pingT_def deadT_def
    by (intro conjI impI)
qed

lemma heartbeat_quiet_run_example:
  "ws dialling = Some 0
   \<and> socketState dialling 0 = Some CONNECTING
   \<and> timers (step demoHost (SockOpen 0) dialling)
       = [\<lparr>tHandle = 1, tKind = HeartbeatPing, tDelay = 30000\<rparr>,
          \<lparr>tHandle = 2, tKind = HeartbeatDeadline, tDelay = 35000\<rparr>]
   \<and> isConnected
        (run demoHost [Fire 1, SockMessage 0 ''{\"type\":\"dashboard_update\"}'', Fire 1]
           (step demoHost (SockOpen 0) dialling))
   \<and> ws (step demoHost (Fire 2)
            (run demoHost [Fire 1, SockMessage 0 ''{\"type\":\"dashboard_update\"}'', Fire 1]
               (step demoHost (SockOpen 0) dialling))) = None
   \<and> closeCalls (sockets (step demoHost (Fire 2)
            (run demoHost [Fire 1, SockMessage 0 ''{\"type\":\"dashboard_update\"}'', Fire 1]
               (step demoHost (SockOpen 0) dialling))) ! 0) = [(1000, ''Client disconnect'')]
   \<and> timers (step demoHost (Fire 2)
            (run demoHost [Fire 1, SockMessage 0 ''{\"type\":\"dashboard_update\"}'', Fire 1]
               (step demoHost (SockOpen 0) dialling)))
       = [\<lparr>tHandle = 3, tKind = ReconnectTimer, tDelay = 1000\<rparr>]"
proof -
  have a: "dialling = run demoHost [Connect (Some ''/ws'')] newManager"
    by (simp add: dialling_def)
  have e: "ws dialling = Some 0" "nextHandle dialling = 1" "timers dialling = []"
    "closeCalls (sockets dialling ! 0) = []"
    by (simp_all add: dialling_eval)
  have c: "socketState dialling 0 = Some CONNECTING"
    by (simp add: dialling_eval socketState_def CONNECTING_def)
  have q: "\<forall>e \<in> set [Fire 1, SockMessage 0 ''{\"type\":\"dashboard_update\"}'', Fire 1].
             quiet demoHost (nextHandle dialling) e"
    by (simp add: e demoHost_def)
  note main = heartbeat_quiet_run [OF a e(1) c refl q refl refl, of "[]"]
  have x1: "timers (step demoHost (SockOpen 0) dialling)
       = [\<lparr>tHandle = 1, tKind = HeartbeatPing, tDelay = 30000\<rparr>,
          \<lparr>tHandle = 2, tKind = HeartbeatDeadline, tDelay = 35000\<rparr>]"
    using main [THEN conjunct1] unfolding e by simp
  have x2: "isConnected
        (run demoHost [Fire 1, SockMessage 0 ''{\"type\":\"dashboard_update\"}'', Fire 1]
           (step demoHost (SockOpen 0) dialling))"
    using main [THEN conjunct2, THEN conjunct1] .
  have x3: "ws (step demoHost (Fire 2)
            (run demoHost [Fire 1, SockMessage 0 ''{\"type\":\"dashboard_update\"}'', Fire 1]
               (step demoHost (SockOpen 0) dialling))) = None"
    using main [THEN conjunct2, THEN conjunct2, THEN conjunct2, THEN conjunct2, THEN conjunct1]
    unfolding e by (simp add: numeral_2_eq_2)
  have x4: "closeCalls (sockets (step demoHost (Fire 2)
            (run demoHost [Fire 1, SockMessage 0 ''{\"type\":\"dashboard_update\"}'', Fire 1]
               (step demoHost (SockOpen 0) dialling))) ! 0) = [(1000, ''Client disconnect'')]"
    using main [THEN conjunct2, THEN conjunct2, THEN conjunct2, THEN conjunct2, THEN conjunct2,
        THEN conjunct1]
    unfolding e by (simp add: numeral_2_eq_2)
  have x5: "timers (step demoHost (Fire 2)
            (run demoHost [Fire 1, SockMessage 0 ''{\"type\":\"dashboard_update\"}'', Fire 1]
               (step demoHost (SockOpen 0) dialling)))
       = [\<lparr>tHandle = 3, tKind = ReconnectTimer, tDelay = 1000\<rparr>]"
    using main [THEN conjunct2, THEN conjunct2, THEN conjunct2, THEN conjunct2, THEN conjunct2,
        THEN conjunct2, THEN conjunct2]
    unfolding e by (simp add: numeral_2_eq_2 numeral_3_eq_3)
  show ?thesis using e(1) c x1 x2 x3 x4 x5 by (intro conjI)
qed

lemma midConnect_eval:
  "midConnect =
     \<lparr> ws = Some 1, reconnectAttempts = 1, isConnecting = False,
       connectionListeners = [], messageListeners = [],
       heartbeatInterval = None, heartbeatTimeout = None, reconnectTimeout = Some 4,
       sockets =
         [\<lparr>url = ''wss://example.org/ws/ws'', readyState = 3, sent = [],
           closeCalls = [(1000, ''Client disconnect'')], closeFired = True\<rparr>,
          \<lparr>url = ''wss://example.org/ws/ws'', readyState = 0, sent = [], closeCalls = [],
           closeFired = False\<rparr>],
       timers = [\<lparr>tHandle = 4, tKind = ReconnectTimer, tDelay = 2000\<rparr>],
       nextHandle = 5, connectionCalls = [], messageCalls = [] \<rparr>"
  by (simp add: midConnect_def demoHost_def model_defs)

subsection \<open>connect while connected or mid-connect (C5)\<close>

text \<open>Where the guard of connect holds, the call returns a resolved promise and changes
  nothing.\<close>

lemma connect_guard:
  assumes "isConnecting s \<or> isConnected s"
  shows "connect env arg s = (Resolved, s)"
  using assms by (simp add: connect_def Let_def)

text \<open>
  Claim C5. In every state in which the manager is connected or mid-connect, connect is to
  return at once without opening a second transport. The code does not keep this in every
  mid-connect state. In the run below, all of whose steps after the first connect are the
  manager's own timers and events of its transports, the close event of the replaced first
  transport clears \<^verbatim>\<open>isConnecting\<close> while the second transport is still connecting
  (getState returns \<^verbatim>\<open>connecting\<close>). A connect call in that state, and likewise the
  reconnect timer that this close event has armed (timer 4), creates a third transport beside
  the connecting one, and both then open.
\<close>

theorem C5_second_transport:
  "getState midConnect = ''connecting''
   \<and> \<not> isConnecting midConnect
   \<and> map readyState (sockets midConnect) = [CLOSED, CONNECTING]
   \<and> fst (connect demoHost None midConnect) = Pending
   \<and> map readyState (sockets (snd (connect demoHost None midConnect)))
       = [CLOSED, CONNECTING, CONNECTING]
   \<and> map readyState (sockets (step demoHost (Fire 4) midConnect))
       = [CLOSED, CONNECTING, CONNECTING]
   \<and> map readyState (sockets (run demoHost [Fire 4, SockOpen 1, SockOpen 2] midConnect))
       = [CLOSED, OPEN, OPEN]"
  by (simp add: midConnect_eval demoHost_def model_defs)

subsection \<open>The heartbeat after a late close event (C3)\<close>

text \<open>An inbound frame of type \<^verbatim>\<open>pong\<close> re-arms the liveness timeout: the pending deadline
  is cleared and a new one of 35000 ms is armed under a new handle.\<close>

lemma pong_rearms:
  assumes ok: "timersOk s"
    and parsed: "JSON_parse env frame = Some d"
    and pong: "getProp d ''type'' = Inr (Some (JString ''pong''))"
  shows "timers (handleMessage env frame s) =
           filter (\<lambda>t. tKind t \<noteq> HeartbeatDeadline) (timers s)
           @ [\<lparr>tHandle = nextHandle s, tKind = HeartbeatDeadline, tDelay = 35000\<rparr>]"
    and "heartbeatTimeout (handleMessage env frame s) = Some (nextHandle s)"
    and "nextHandle (handleMessage env frame s) = Suc (nextHandle s)"
proof -
  have hm: "handleMessage env frame s = resetHeartbeatTimeout (notifyMessageListeners d s)"
    using parsed pong by (simp add: handleMessage_def handleMessage_try_def Let_def)
  have keep: "filter (\<lambda>t. Some (tHandle t) \<noteq> heartbeatTimeout s) (timers s)
                = filter (\<lambda>t. tKind t \<noteq> HeartbeatDeadline) (timers s)"
  proof (rule filter_cong [OF refl])
    fix t assume "t \<in> set (timers s)"
    then have "timerOk s t" using ok by (simp add: timersOk_def)
    then show "(Some (tHandle t) \<noteq> heartbeatTimeout s) = (tKind t \<noteq> HeartbeatDeadline)"
      by (auto simp: timerOk_def)
  qed
  have "timers (handleMessage env frame s) =
          filter (\<lambda>t. Some (tHandle t) \<noteq> heartbeatTimeout s) (timers s)
          @ [\<lparr>tHandle = nextHandle s, tKind = HeartbeatDeadline, tDelay = 35000\<rparr>]"
    by (cases "heartbeatTimeout s")
       (simp_all add: hm resetHeartbeatTimeout_def notifyMessageListeners_def setTimer_def
          clearTimer_def Let_def)
  then show "timers (handleMessage env frame s) =
           filter (\<lambda>t. tKind t \<noteq> HeartbeatDeadline) (timers s)
           @ [\<lparr>tHandle = nextHandle s, tKind = HeartbeatDeadline, tDelay = 35000\<rparr>]"
    by (simp add: keep)
  show "heartbeatTimeout (handleMessage env frame s) = Some (nextHandle s)"
    "nextHandle (handleMessage env frame s) = Suc (nextHandle s)"
    by (cases "heartbeatTimeout s";
        simp add: hm resetHeartbeatTimeout_def notifyMessageListeners_def setTimer_def
          clearTimer_def Let_def)+
qed

text \<open>
  Claim C3. While the connection is open the manager is to send a message of type
  \<^verbatim>\<open>ping\<close> every 30 seconds, and after 35 seconds in the connected state without a
  \<^verbatim>\<open>pong\<close> it is to force-close the transport and schedule a reconnect. The code does not
  keep this on every open connection. In the run \<open>heartbeatLost\<close> the liveness timeout of a
  first connection fires, the reconnect opens a second transport, and the close event of the
  first transport arrives afterwards: its handler runs stopHeartbeat and clears the interval
  and the timeout of the new connection. The manager is then connected with no timer
  pending, and no timer can fire: no ping is sent and nothing closes the connection,
  however long no \<^verbatim>\<open>pong\<close> arrives.
\<close>

theorem C3_heartbeat_lost:
  "isConnected heartbeatLost
   \<and> getState heartbeatLost = ''connected''
   \<and> timers heartbeatLost = []
   \<and> heartbeatInterval heartbeatLost = None
   \<and> heartbeatTimeout heartbeatLost = None
   \<and> (\<forall>h. step demoHost (Fire h) heartbeatLost = heartbeatLost)"
  by (simp add: heartbeatLost_eval isConnected_def getState_def currentSocket_def
      CONNECTING_def OPEN_def fireTimer_def)


subsection \<open>The maximum of attempts (C2)\<close>







subsection \<open>A close event with the clean-shutdown code (C4)\<close>



lemma settled_upd [simp]:
  "settled (s\<lparr>isConnecting := b\<rparr>) = settled s"
  "settled (s\<lparr>reconnectAttempts := n\<rparr>) = settled s"
  "settled (s\<lparr>timers := ts\<rparr>) = settled s"
  "settled (s\<lparr>nextHandle := h\<rparr>) = settled s"
  "settled (s\<lparr>heartbeatInterval := v\<rparr>) = settled s"
  "settled (s\<lparr>heartbeatTimeout := v\<rparr>) = settled s"
  "settled (s\<lparr>reconnectTimeout := v\<rparr>) = settled s"
  "settled (s\<lparr>connectionListeners := ls\<rparr>) = settled s"
  "settled (s\<lparr>messageListeners := ls\<rparr>) = settled s"
  "settled (s\<lparr>connectionCalls := cs\<rparr>) = settled s"
  "settled (s\<lparr>messageCalls := ms\<rparr>) = settled s"
  by (simp_all add: settled_def split: option.splits)













end
